theory Spec2Isabelle
  imports Main
begin

section \<open>JavaScript values, strings and constants\<close>

text \<open>
  The extension keeps two records in the browser's synced key-value store: the list of
  templates and the settings object. Strings are modelled as \<open>string\<close>, one \<open>char\<close> for
  each code unit of the JavaScript string. A value whose JavaScript type the code tests
  at run time (a settings field, a launch option) is a \<open>jsval\<close>.
\<close>

datatype jsval = JUndefined | JNull | JBool bool | JNum int | JStr string

text \<open>What \<^verbatim>\<open>if (v)\<close> and \<^verbatim>\<open>!v\<close> test.\<close>

fun truthy :: "jsval \<Rightarrow> bool" where
  "truthy JUndefined = False"
| "truthy JNull = False"
| "truthy (JBool b) = b"
| "truthy (JNum n) = (n \<noteq> 0)"
| "truthy (JStr s) = (s \<noteq> [])"

text \<open>\<^verbatim>\<open>a || b\<close> on numbers: 0 is the falsy number.\<close>

definition num_or :: "int \<Rightarrow> int \<Rightarrow> int" where
  "num_or a b = (if a = 0 then b else a)"

text \<open>
  A JavaScript number is an IEEE 754 double. The numbers of this model (\<^verbatim>\<open>usageCount\<close>) are
  whole, and an \<open>int\<close> stands for the double of that value. Up to 9007199254740992, which
  is 2 to the power 53, every whole number is a double; above it the doubles are 2, then 4,
  then 8 apart, and so on: \<open>ulp n\<close> is the distance between the doubles around the magnitude
  \<open>n\<close>. \<^verbatim>\<open>a + b\<close> is the exact sum rounded to the nearest double, a tie going to the double
  with the even significand.
\<close>

fun ulp :: "nat \<Rightarrow> nat" where
  "ulp n = (if n < 9007199254740992 then 1 else 2 * ulp (n div 2))"

definition round_nat :: "nat \<Rightarrow> nat" where
  "round_nat n =
     (if 2 * (n mod ulp n) < ulp n then (n div ulp n) * ulp n
      else if ulp n < 2 * (n mod ulp n) then (n div ulp n + 1) * ulp n
      else if even (n div ulp n) then (n div ulp n) * ulp n
      else (n div ulp n + 1) * ulp n)"

definition round_double :: "int \<Rightarrow> int" where
  "round_double x = (if x < 0 then - int (round_nat (nat (- x))) else int (round_nat (nat x)))"

definition js_add :: "int \<Rightarrow> int \<Rightarrow> int" where
  "js_add a b = round_double (a + b)"

text \<open>
  \<^verbatim>\<open>String.prototype.trim\<close> removes white space at both ends; these are the white space
  code units below 256.
\<close>

definition is_space :: "char \<Rightarrow> bool" where
  "is_space c = (c \<in> set [CHR 0x09, CHR 0x0A, CHR 0x0B, CHR 0x0C, CHR 0x0D, CHR 0x20, CHR 0xA0])"

definition trim :: "string \<Rightarrow> string" where
  "trim s = rev (dropWhile is_space (rev (dropWhile is_space s)))"

text \<open>A number in a template literal: its decimal digits.\<close>

definition digit_char :: "nat \<Rightarrow> char" where
  "digit_char d = ''0123456789'' ! d"

fun show_nat :: "nat \<Rightarrow> string" where
  "show_nat n = (if n < 10 then [digit_char n] else show_nat (n div 10) @ [digit_char (n mod 10)])"

text \<open>The constants of \<^verbatim>\<open>constants.js\<close> that the modelled code reads.\<close>

definition MAX_TEMPLATE_NAME_LENGTH :: nat where
  "MAX_TEMPLATE_NAME_LENGTH = 50"

definition MAX_DESCRIPTION_LENGTH :: nat where
  "MAX_DESCRIPTION_LENGTH = 200"

definition MAX_URL_LENGTH :: nat where
  "MAX_URL_LENGTH = 2048"

definition MAX_TABS :: nat where
  "MAX_TABS = 100"

definition DEFAULT_COLOR :: string where
  "DEFAULT_COLOR = ''#4285F4''"

text \<open>The default icon is the emoji U+1F4D1, kept here as its four UTF-8 bytes; it is only copied.\<close>

definition DEFAULT_ICON :: string where
  "DEFAULT_ICON = [CHR 0xF0, CHR 0x9F, CHR 0x93, CHR 0x91]"

definition DATA_VERSION :: string where
  "DATA_VERSION = ''1.0.0''"

section \<open>The data model\<close>

text \<open>
  A timestamp is stored as a string and read back with \<^verbatim>\<open>new Date(s)\<close>: \<open>DateStr ms\<close> is a
  string that parses to the instant \<open>ms\<close> (milliseconds since the epoch), \<open>NotADate\<close> any
  value for which \<^verbatim>\<open>isValidDate\<close> is false (an unparseable, empty or missing string).
\<close>

datatype datestr = DateStr int | NotADate

fun isValidDate :: "datestr \<Rightarrow> bool" where
  "isValidDate (DateStr ms) = True"
| "isValidDate NotADate = False"

record tab =
  url :: string
  title :: string
  favicon :: "string option"

text \<open>
  The template's \<^verbatim>\<open>id\<close> field is \<open>id'\<close> here. \<open>description\<close> is \<open>None\<close> when the field is
  absent, \<open>lastUsedAt\<close> is \<open>None\<close> when it is \<^verbatim>\<open>null\<close>.
\<close>

record template =
  id' :: string
  name :: string
  description :: "string option"
  color :: string
  icon :: string
  tabs :: "tab list"
  createdAt :: datestr
  lastUsedAt :: "datestr option"
  usageCount :: int

text \<open>
  An update object for \<^verbatim>\<open>{ ...template, ...updates }\<close>: \<open>None\<close> for a key the object does
  not have.
\<close>

record template_updates =
  upd_id :: "string option"
  upd_name :: "string option"
  upd_description :: "string option option"
  upd_color :: "string option"
  upd_icon :: "string option"
  upd_tabs :: "tab list option"
  upd_createdAt :: "datestr option"
  upd_lastUsedAt :: "datestr option option"
  upd_usageCount :: "int option"

definition no_updates :: template_updates where
  "no_updates = \<lparr>upd_id = None, upd_name = None, upd_description = None, upd_color = None,
     upd_icon = None, upd_tabs = None, upd_createdAt = None, upd_lastUsedAt = None,
     upd_usageCount = None\<rparr>"

definition spread :: "template \<Rightarrow> template_updates \<Rightarrow> template" where
  "spread t u =
     \<lparr>id' = (case upd_id u of None \<Rightarrow> id' t | Some v \<Rightarrow> v),
      name = (case upd_name u of None \<Rightarrow> name t | Some v \<Rightarrow> v),
      description = (case upd_description u of None \<Rightarrow> description t | Some v \<Rightarrow> v),
      color = (case upd_color u of None \<Rightarrow> color t | Some v \<Rightarrow> v),
      icon = (case upd_icon u of None \<Rightarrow> icon t | Some v \<Rightarrow> v),
      tabs = (case upd_tabs u of None \<Rightarrow> tabs t | Some v \<Rightarrow> v),
      createdAt = (case upd_createdAt u of None \<Rightarrow> createdAt t | Some v \<Rightarrow> v),
      lastUsedAt = (case upd_lastUsedAt u of None \<Rightarrow> lastUsedAt t | Some v \<Rightarrow> v),
      usageCount = (case upd_usageCount u of None \<Rightarrow> usageCount t | Some v \<Rightarrow> v)\<rparr>"

text \<open>
  The settings object is a JavaScript object read by key: a map from key to value, so that
  a missing key, a wrong string and a value of the wrong type are all representable.
  \<^verbatim>\<open>{ ...current, ...updates }\<close> is \<open>current ++ updates\<close>.
\<close>

type_synonym settings = "string \<Rightarrow> jsval option"

definition DEFAULT_SETTINGS :: settings where
  "DEFAULT_SETTINGS =
     [''startupBehavior'' \<mapsto> JStr ''none'',
      ''defaultTemplateId'' \<mapsto> JNull,
      ''openBehavior'' \<mapsto> JStr ''new_window'',
      ''closeExistingTabs'' \<mapsto> JBool False,
      ''sortBy'' \<mapsto> JStr ''lastUsed'',
      ''sortOrder'' \<mapsto> JStr ''desc'',
      ''theme'' \<mapsto> JStr ''auto'',
      ''showFavicons'' \<mapsto> JBool True,
      ''confirmDelete'' \<mapsto> JBool True]"

text \<open>\<^verbatim>\<open>settings.key\<close>: \<^verbatim>\<open>undefined\<close> for a missing key.\<close>

definition getprop :: "settings \<Rightarrow> string \<Rightarrow> jsval" where
  "getprop s k = (case s k of None \<Rightarrow> JUndefined | Some v \<Rightarrow> v)"

section \<open>The validator\<close>

text \<open>
  Each validator returns \<^verbatim>\<open>{ isValid, error }\<close>: \<open>Valid\<close> is
  \<^verbatim>\<open>{ isValid: true, error: null }\<close>, \<open>Invalid e\<close> is \<^verbatim>\<open>{ isValid: false, error: e }\<close>.
  The checks are in the order of the source. A check of a JavaScript type that the typed
  value always passes (\<^verbatim>\<open>typeof url !== 'string'\<close>, \<^verbatim>\<open>Array.isArray(template.tabs)\<close>) is not
  written out; \<^verbatim>\<open>!s\<close> on a string is \<open>s = []\<close>.
\<close>

datatype validation = Valid | Invalid string

fun isValid :: "validation \<Rightarrow> bool" where
  "isValid Valid = True"
| "isValid (Invalid e) = False"

text \<open>
  \<^verbatim>\<open>new URL(url)\<close> is the host's parser, a parameter of the model: \<open>P u = Some p\<close> when the
  constructor accepts \<open>u\<close> and \<open>p\<close> is the \<^verbatim>\<open>protocol\<close> of the result, \<open>P u = None\<close> when it
  throws.
\<close>

type_synonym url_parser = "string \<Rightarrow> string option"

definition validateUrl :: "url_parser \<Rightarrow> string \<Rightarrow> validation" where
  "validateUrl P u =
     (if u = [] then Invalid ''URL is required''
      else if length u > MAX_URL_LENGTH then Invalid ''URL is too long''
      else (case P u of
              None \<Rightarrow> Invalid ''Invalid URL format''
            | Some p \<Rightarrow>
                if p \<in> set [''http:'', ''https:''] then Valid
                else Invalid ''URL must use http or https protocol''))"

definition validateTemplateName :: "string \<Rightarrow> validation" where
  "validateTemplateName n =
     (if n = [] then Invalid ''Template name is required''
      else if length (trim n) = 0 then Invalid ''Template name cannot be empty''
      else if length (trim n) > MAX_TEMPLATE_NAME_LENGTH
        then Invalid (''Template name must be '' @ show_nat MAX_TEMPLATE_NAME_LENGTH @ '' characters or less'')
      else Valid)"

definition validateDescription :: "string option \<Rightarrow> validation" where
  "validateDescription d =
     (case d of
        None \<Rightarrow> Valid
      | Some s \<Rightarrow>
          if s = [] then Valid
          else if length s > MAX_DESCRIPTION_LENGTH
            then Invalid (''Description must be '' @ show_nat MAX_DESCRIPTION_LENGTH @ '' characters or less'')
          else Valid)"

definition validateTab :: "url_parser \<Rightarrow> tab \<Rightarrow> validation" where
  "validateTab P t =
     (case validateUrl P (url t) of
        Invalid e \<Rightarrow> Invalid e
      | Valid \<Rightarrow> if title t = [] then Invalid ''Tab title is required'' else Valid)"

text \<open>The loop of \<^verbatim>\<open>validateTemplate\<close> over the tabs, from index \<open>i\<close>.\<close>

fun validateTabsFrom :: "url_parser \<Rightarrow> nat \<Rightarrow> tab list \<Rightarrow> validation" where
  "validateTabsFrom P i [] = Valid"
| "validateTabsFrom P i (t # ts) =
     (case validateTab P t of
        Invalid e \<Rightarrow> Invalid (''Tab '' @ show_nat (i + 1) @ '': '' @ e)
      | Valid \<Rightarrow> validateTabsFrom P (i + 1) ts)"

definition validateTemplate :: "url_parser \<Rightarrow> template \<Rightarrow> validation" where
  "validateTemplate P t =
     (if id' t = [] then Invalid ''Template ID is required''
      else (case validateTemplateName (name t) of
        Invalid e \<Rightarrow> Invalid e
      | Valid \<Rightarrow>
          (case validateTabsFrom P 0 (tabs t) of
             Invalid e \<Rightarrow> Invalid e
           | Valid \<Rightarrow>
               if \<not> isValidDate (createdAt t) then Invalid ''Invalid createdAt timestamp''
               else if (case lastUsedAt t of None \<Rightarrow> False | Some d \<Rightarrow> \<not> isValidDate d)
                 then Invalid ''Invalid lastUsedAt timestamp''
               else if usageCount t < 0 then Invalid ''Invalid usage count''
               else Valid)))"

text \<open>\<^verbatim>\<open>list.includes(settings.key)\<close> for a list of strings, and \<^verbatim>\<open>typeof v === 'boolean'\<close>.\<close>

definition includes_str :: "string list \<Rightarrow> jsval \<Rightarrow> bool" where
  "includes_str xs v = (case v of JStr s \<Rightarrow> s \<in> set xs | _ \<Rightarrow> False)"

definition is_boolean :: "jsval \<Rightarrow> bool" where
  "is_boolean v = (case v of JBool b \<Rightarrow> True | _ \<Rightarrow> False)"

definition validateSettings :: "settings \<Rightarrow> validation" where
  "validateSettings s =
     (if \<not> includes_str [''none'', ''show_selector'', ''auto_launch''] (getprop s ''startupBehavior'')
        then Invalid ''Invalid startup behavior''
      else if \<not> includes_str [''new_window'', ''current_window'', ''replace_tabs''] (getprop s ''openBehavior'')
        then Invalid ''Invalid open behavior''
      else if \<not> includes_str [''name'', ''created'', ''lastUsed'', ''usageCount''] (getprop s ''sortBy'')
        then Invalid ''Invalid sort by value''
      else if \<not> includes_str [''asc'', ''desc''] (getprop s ''sortOrder'')
        then Invalid ''Invalid sort order''
      else if \<not> includes_str [''auto'', ''light'', ''dark''] (getprop s ''theme'')
        then Invalid ''Invalid theme''
      else if \<not> is_boolean (getprop s ''closeExistingTabs'')
        then Invalid ''closeExistingTabs must be boolean''
      else if \<not> is_boolean (getprop s ''showFavicons'')
        then Invalid ''showFavicons must be boolean''
      else if \<not> is_boolean (getprop s ''confirmDelete'')
        then Invalid ''confirmDelete must be boolean''
      else Valid)"

definition sanitizeTemplateName :: "string \<Rightarrow> string" where
  "sanitizeTemplateName n =
     filter (\<lambda>c. c \<noteq> CHR ''<'' \<and> c \<noteq> CHR ''>'') (take MAX_TEMPLATE_NAME_LENGTH (trim n))"

section \<open>The host\<close>

text \<open>
  The host is the browser: the synced store with its three keys, and the windows and tabs.
  Every call into it can reject. \<open>faults\<close> scripts the outcome of the coming host calls in
  order (\<open>True\<close>: the call rejects and changes nothing); when the script is used up every
  call succeeds. The service's \<^verbatim>\<open>cache\<close> object is left out: the code assigns it and never
  reads it. \<^verbatim>\<open>deepClone\<close> is the identity on these values.
\<close>

record browser_tab =
  tab_id :: nat
  window_id :: nat
  pinned :: bool
  tab_url :: string

record world =
  sync_templates :: "template list option"
  sync_settings :: "settings option"
  sync_version :: "string option"
  bytes_in_use :: nat
  focused_window :: nat
  fresh_id :: nat
  open_tabs :: "browser_tab list"
  faults :: "bool list"

text \<open>
  A thrown value: \<open>Error m\<close> is \<^verbatim>\<open>new Error(m)\<close> thrown by the extension's own code,
  \<open>HostError\<close> the rejection of a host call. An asynchronous function takes the world and
  returns its result, or the value it throws, with the world it leaves.
\<close>

datatype js_error = Error string | HostError

type_synonym 'a io = "world \<Rightarrow> (js_error + 'a) \<times> world"

definition io_return :: "'a \<Rightarrow> 'a io" where
  "io_return x w = (Inr x, w)"

definition io_throw :: "js_error \<Rightarrow> 'a io" where
  "io_throw e w = (Inl e, w)"

definition io_bind :: "'a io \<Rightarrow> ('a \<Rightarrow> 'b io) \<Rightarrow> 'b io" where
  "io_bind m f w = (case m w of (Inl e, w') \<Rightarrow> (Inl e, w') | (Inr x, w') \<Rightarrow> f x w')"

text \<open>
  \<^verbatim>\<open>try { m } catch (error) { h }\<close>. A handler that only logs and rethrows is the identity
  and is not written out.
\<close>

definition io_catch :: "'a io \<Rightarrow> (js_error \<Rightarrow> 'a io) \<Rightarrow> 'a io" where
  "io_catch m h w = (case m w of (Inl e, w') \<Rightarrow> h e w' | (Inr x, w') \<Rightarrow> (Inr x, w'))"

definition rejects :: "world \<Rightarrow> bool" where
  "rejects w = (case faults w of [] \<Rightarrow> False | b # bs \<Rightarrow> b)"

definition advance :: "world \<Rightarrow> world" where
  "advance w = w\<lparr>faults := tl (faults w)\<rparr>"

definition host_call :: "(world \<Rightarrow> 'a \<times> world) \<Rightarrow> 'a io" where
  "host_call act w =
     (if rejects w then (Inl HostError, advance w)
      else (case act (advance w) of (x, w') \<Rightarrow> (Inr x, w')))"

definition storage_get_templates :: "template list option io" where
  "storage_get_templates = host_call (\<lambda>w. (sync_templates w, w))"

definition storage_get_settings :: "settings option io" where
  "storage_get_settings = host_call (\<lambda>w. (sync_settings w, w))"

definition storage_get_all :: "(template list option \<times> settings option \<times> string option) io" where
  "storage_get_all = host_call (\<lambda>w. ((sync_templates w, sync_settings w, sync_version w), w))"

definition storage_set_templates :: "template list \<Rightarrow> unit io" where
  "storage_set_templates ts = host_call (\<lambda>w. ((), w\<lparr>sync_templates := Some ts\<rparr>))"

definition storage_set_settings :: "settings \<Rightarrow> unit io" where
  "storage_set_settings s = host_call (\<lambda>w. ((), w\<lparr>sync_settings := Some s\<rparr>))"

definition storage_set_version :: "string \<Rightarrow> unit io" where
  "storage_set_version v = host_call (\<lambda>w. ((), w\<lparr>sync_version := Some v\<rparr>))"

definition storage_getBytesInUse :: "nat io" where
  "storage_getBytesInUse = host_call (\<lambda>w. (bytes_in_use w, w))"

text \<open>\<^verbatim>\<open>chrome.storage.sync.QUOTA_BYTES\<close>.\<close>

definition QUOTA_BYTES :: nat where
  "QUOTA_BYTES = 102400"

text \<open>
  \<^verbatim>\<open>chrome.windows.create({ url, focused: true })\<close> opens a window with one tab and focuses
  it; \<^verbatim>\<open>chrome.tabs.create\<close> adds a tab to a window; \<^verbatim>\<open>chrome.tabs.query({ windowId })\<close>
  lists the tabs of a window; \<^verbatim>\<open>chrome.tabs.remove\<close> closes a tab.
\<close>

definition windows_create :: "string \<Rightarrow> nat io" where
  "windows_create u = host_call (\<lambda>w.
     (fresh_id w,
      w\<lparr>focused_window := fresh_id w,
        open_tabs := open_tabs w @
          [\<lparr>tab_id = fresh_id w + 1, window_id = fresh_id w, pinned = False, tab_url = u\<rparr>],
        fresh_id := fresh_id w + 2\<rparr>))"

definition windows_getCurrent :: "nat io" where
  "windows_getCurrent = host_call (\<lambda>w. (focused_window w, w))"

definition tabs_create :: "nat \<Rightarrow> string \<Rightarrow> unit io" where
  "tabs_create win u = host_call (\<lambda>w.
     ((),
      w\<lparr>open_tabs := open_tabs w @
          [\<lparr>tab_id = fresh_id w, window_id = win, pinned = False, tab_url = u\<rparr>],
        fresh_id := fresh_id w + 1\<rparr>))"

definition tabs_query :: "nat \<Rightarrow> browser_tab list io" where
  "tabs_query win = host_call (\<lambda>w. (filter (\<lambda>b. window_id b = win) (open_tabs w), w))"

definition tabs_remove :: "nat \<Rightarrow> unit io" where
  "tabs_remove i = host_call (\<lambda>w. ((), w\<lparr>open_tabs := filter (\<lambda>b. tab_id b \<noteq> i) (open_tabs w)\<rparr>))"

section \<open>The storage service\<close>

text \<open>\<^verbatim>\<open>findIndex\<close>: \<open>None\<close> for -1.\<close>

fun findIndex :: "('a \<Rightarrow> bool) \<Rightarrow> 'a list \<Rightarrow> nat option" where
  "findIndex p [] = None"
| "findIndex p (x # xs) = (if p x then Some 0 else map_option Suc (findIndex p xs))"

definition initialize :: "bool io" where
  "initialize =
     io_catch
       (io_bind storage_get_all (\<lambda>(ts, st, v).
        io_bind (if ts = None then storage_set_templates [] else io_return ()) (\<lambda>_.
        io_bind (if st = None then storage_set_settings DEFAULT_SETTINGS else io_return ()) (\<lambda>_.
        io_bind (if v = None \<or> v = Some [] then storage_set_version DATA_VERSION else io_return ()) (\<lambda>_.
        io_return True)))))
       (\<lambda>e. io_return False)"

definition getTemplates :: "template list io" where
  "getTemplates =
     io_catch
       (io_bind storage_get_templates (\<lambda>r.
        io_return (case r of None \<Rightarrow> [] | Some ts \<Rightarrow> ts)))
       (\<lambda>e. io_return [])"

definition getTemplate :: "string \<Rightarrow> template option io" where
  "getTemplate templateId =
     io_catch
       (io_bind getTemplates (\<lambda>ts. io_return (find (\<lambda>t. id' t = templateId) ts)))
       (\<lambda>e. io_return None)"

definition saveTemplate :: "url_parser \<Rightarrow> template \<Rightarrow> bool io" where
  "saveTemplate P t =
     (case validateTemplate P t of
        Invalid e \<Rightarrow> io_throw (Error e)
      | Valid \<Rightarrow>
          io_bind getTemplates (\<lambda>ts.
          io_bind (storage_set_templates (ts @ [t])) (\<lambda>_.
          io_return True)))"

definition updateTemplate :: "url_parser \<Rightarrow> string \<Rightarrow> template_updates \<Rightarrow> bool io" where
  "updateTemplate P templateId updates =
     io_bind getTemplates (\<lambda>ts.
       (case findIndex (\<lambda>t. id' t = templateId) ts of
          None \<Rightarrow> io_throw (Error ''Template not found'')
        | Some i \<Rightarrow>
            (case validateTemplate P (spread (ts ! i) updates) of
               Invalid e \<Rightarrow> io_throw (Error e)
             | Valid \<Rightarrow>
                 io_bind (storage_set_templates (ts[i := spread (ts ! i) updates])) (\<lambda>_.
                 io_return True))))"

definition deleteTemplate :: "string \<Rightarrow> bool io" where
  "deleteTemplate templateId =
     io_bind getTemplates (\<lambda>ts.
     io_bind (storage_set_templates (filter (\<lambda>t. id' t \<noteq> templateId) ts)) (\<lambda>_.
     io_return True))"

text \<open>\<open>now\<close> is the clock reading of \<^verbatim>\<open>new Date()\<close>.\<close>

definition updateTemplateUsage :: "int \<Rightarrow> string \<Rightarrow> bool io" where
  "updateTemplateUsage now templateId =
     io_bind getTemplates (\<lambda>ts.
       (case findIndex (\<lambda>t. id' t = templateId) ts of
          None \<Rightarrow> io_throw (Error ''Template not found'')
        | Some i \<Rightarrow>
            io_bind (storage_set_templates
              (ts[i := (ts ! i)\<lparr>lastUsedAt := Some (DateStr now),
                                usageCount := js_add (num_or (usageCount (ts ! i)) 0) 1\<rparr>])) (\<lambda>_.
            io_return True)))"

definition getSettings :: "settings io" where
  "getSettings =
     io_catch
       (io_bind storage_get_settings (\<lambda>r.
        io_return (case r of None \<Rightarrow> DEFAULT_SETTINGS | Some s \<Rightarrow> s)))
       (\<lambda>e. io_return DEFAULT_SETTINGS)"

definition updateSettings :: "settings \<Rightarrow> bool io" where
  "updateSettings updates =
     io_bind getSettings (\<lambda>currentSettings.
       (case validateSettings (currentSettings ++ updates) of
          Invalid e \<Rightarrow> io_throw (Error e)
        | Valid \<Rightarrow>
            io_bind (storage_set_settings (currentSettings ++ updates)) (\<lambda>_.
            io_return True)))"

definition resetSettings :: "bool io" where
  "resetSettings = io_bind (storage_set_settings DEFAULT_SETTINGS) (\<lambda>_. io_return True)"

text \<open>
  The export object, also what an import receives: \<open>templates\<close> is \<open>None\<close> when the key is
  missing or is not an array.
\<close>

record data_file =
  version :: "string option"
  exportedAt :: "datestr option"
  templates :: "template list option"

definition exportData :: "int \<Rightarrow> data_file io" where
  "exportData now =
     io_bind getTemplates (\<lambda>ts.
     io_return \<lparr>version = Some DATA_VERSION, exportedAt = Some (DateStr now), templates = Some ts\<rparr>)"

definition importData :: "data_file \<Rightarrow> bool \<Rightarrow> nat io" where
  "importData d merge =
     (case templates d of
        None \<Rightarrow> io_throw (Error ''Invalid import data format'')
      | Some imported \<Rightarrow>
          io_bind
            (if merge
             then io_bind getTemplates (\<lambda>ts.
                  io_return (ts @ filter (\<lambda>t. id' t \<notin> set (map id' ts)) imported))
             else io_return imported) (\<lambda>ts'.
          io_bind (storage_set_templates ts') (\<lambda>_.
          io_return (if merge then length imported else length ts'))))"

definition clearTemplates :: "bool io" where
  "clearTemplates = io_bind (storage_set_templates []) (\<lambda>_. io_return True)"

text \<open>
  The storage report, \<open>None\<close> for \<^verbatim>\<open>null\<close>. Its \<^verbatim>\<open>percentUsed\<close> field is a floating-point
  quotient and is left out.
\<close>

record storage_info =
  bytesInUse :: nat
  quota :: nat
  available :: int

definition getStorageInfo :: "storage_info option io" where
  "getStorageInfo =
     io_catch
       (io_bind storage_getBytesInUse (\<lambda>b.
        io_return (Some \<lparr>bytesInUse = b, quota = QUOTA_BYTES, available = int QUOTA_BYTES - int b\<rparr>)))
       (\<lambda>e. io_return None)"

section \<open>The tab service\<close>

record open_result =
  success :: bool
  openedTabs :: nat
  windowId :: nat

text \<open>The loop \<^verbatim>\<open>for (...) await chrome.tabs.create({ windowId, url, active: false })\<close>.\<close>

fun create_each :: "nat \<Rightarrow> tab list \<Rightarrow> unit io" where
  "create_each win [] = io_return ()"
| "create_each win (t # ts) = io_bind (tabs_create win (url t)) (\<lambda>_. create_each win ts)"

fun remove_each :: "browser_tab list \<Rightarrow> unit io" where
  "remove_each [] = io_return ()"
| "remove_each (b # bs) = io_bind (tabs_remove (tab_id b)) (\<lambda>_. remove_each bs)"

text \<open>
  \<^verbatim>\<open>tabs[0].url\<close> on an empty array throws a \<^verbatim>\<open>TypeError\<close>; \<^verbatim>\<open>openTabs\<close> never passes one.
\<close>

definition openInNewWindow :: "tab list \<Rightarrow> open_result io" where
  "openInNewWindow ts =
     (case ts of
        [] \<Rightarrow> io_throw (Error ''TypeError'')
      | t # rest \<Rightarrow>
          io_bind (windows_create (url t)) (\<lambda>win.
          io_bind (create_each win rest) (\<lambda>_.
          io_return \<lparr>success = True, openedTabs = length ts, windowId = win\<rparr>)))"

definition openInCurrentWindow :: "tab list \<Rightarrow> open_result io" where
  "openInCurrentWindow ts =
     io_bind windows_getCurrent (\<lambda>win.
     io_bind (create_each win ts) (\<lambda>_.
     io_return \<lparr>success = True, openedTabs = length ts, windowId = win\<rparr>))"

definition replaceTabs :: "tab list \<Rightarrow> jsval \<Rightarrow> open_result io" where
  "replaceTabs ts closeExisting =
     io_bind windows_getCurrent (\<lambda>win.
     io_bind (if truthy closeExisting
              then io_bind (tabs_query win) (\<lambda>currentTabs.
                   remove_each (filter (\<lambda>b. \<not> pinned b) currentTabs))
              else io_return ()) (\<lambda>_.
     io_bind (create_each win ts) (\<lambda>_.
     io_return \<lparr>success = True, openedTabs = length ts, windowId = win\<rparr>)))"

text \<open>
  The default parameters \<^verbatim>\<open>openBehavior = 'new_window'\<close> and \<^verbatim>\<open>closeExisting = false\<close> apply
  to an argument that is \<^verbatim>\<open>undefined\<close>.
\<close>

definition default_arg :: "jsval \<Rightarrow> jsval \<Rightarrow> jsval" where
  "default_arg v d = (if v = JUndefined then d else v)"

definition openTabs :: "url_parser \<Rightarrow> tab list \<Rightarrow> jsval \<Rightarrow> jsval \<Rightarrow> open_result io" where
  "openTabs P ts openBehavior closeExisting =
     (if ts = [] then io_throw (Error ''No tabs to open'')
      else (case find (\<lambda>t. \<not> isValid (validateUrl P (url t))) ts of
        Some t \<Rightarrow> io_throw (Error (''Invalid URL: '' @ url t))
      | None \<Rightarrow>
          if default_arg openBehavior (JStr ''new_window'') = JStr ''new_window''
            then openInNewWindow ts
          else if default_arg openBehavior (JStr ''new_window'') = JStr ''current_window''
            then openInCurrentWindow ts
          else if default_arg openBehavior (JStr ''new_window'') = JStr ''replace_tabs''
            then replaceTabs ts (default_arg closeExisting (JBool False))
          else io_throw (Error ''Invalid open behavior'')))"

section \<open>The template manager\<close>

text \<open>
  \<^verbatim>\<open>generateUUID\<close> replaces each \<^verbatim>\<open>x\<close> and \<^verbatim>\<open>y\<close> of its pattern by a hexadecimal digit
  drawn with \<^verbatim>\<open>Math.random() * 16 | 0\<close>; \<open>rnd k\<close> is the \<open>k\<close>-th draw.
\<close>

text \<open>\<^verbatim>\<open>v.toString(16)\<close> for \<open>v < 16\<close>.\<close>

definition hex_digit :: "nat \<Rightarrow> char" where
  "hex_digit v = ''0123456789abcdef'' ! v"

fun uuid_fill :: "string \<Rightarrow> (nat \<Rightarrow> nat) \<Rightarrow> nat \<Rightarrow> string" where
  "uuid_fill [] rnd k = []"
| "uuid_fill (c # cs) rnd k =
     (if c = CHR ''x'' then hex_digit (rnd k mod 16) # uuid_fill cs rnd (k + 1)
      else if c = CHR ''y'' then hex_digit (or (and (rnd k mod 16) 3) 8) # uuid_fill cs rnd (k + 1)
      else c # uuid_fill cs rnd k)"

definition generateUUID :: "(nat \<Rightarrow> nat) \<Rightarrow> string" where
  "generateUUID rnd = uuid_fill ''xxxxxxxx-xxxx-4xxx-yxxx-xxxxxxxxxxxx'' rnd 0"

text \<open>
  The default parameter \<^verbatim>\<open>description = ''\<close>: the caller's description, or the empty string
  when it passes none.
\<close>

definition createEmpty ::
  "url_parser \<Rightarrow> (nat \<Rightarrow> nat) \<Rightarrow> int \<Rightarrow> string \<Rightarrow> string option \<Rightarrow> template io" where
  "createEmpty P rnd now n d =
     (case validateTemplateName n of
        Invalid e \<Rightarrow> io_throw (Error e)
      | Valid \<Rightarrow>
          io_bind (saveTemplate P
            \<lparr>id' = generateUUID rnd, name = sanitizeTemplateName n,
             description = Some (case d of None \<Rightarrow> [] | Some s \<Rightarrow> s),
             color = DEFAULT_COLOR, icon = DEFAULT_ICON, tabs = [],
             createdAt = DateStr now, lastUsedAt = None, usageCount = 0\<rparr>) (\<lambda>_.
          io_return
            \<lparr>id' = generateUUID rnd, name = sanitizeTemplateName n,
             description = Some (case d of None \<Rightarrow> [] | Some s \<Rightarrow> s),
             color = DEFAULT_COLOR, icon = DEFAULT_ICON, tabs = [],
             createdAt = DateStr now, lastUsedAt = None, usageCount = 0\<rparr>))"

definition addTab :: "url_parser \<Rightarrow> string \<Rightarrow> tab \<Rightarrow> bool io" where
  "addTab P templateId tb =
     (case validateTab P tb of
        Invalid e \<Rightarrow> io_throw (Error e)
      | Valid \<Rightarrow>
          io_bind (getTemplate templateId) (\<lambda>r.
            (case r of
               None \<Rightarrow> io_throw (Error ''Template not found'')
             | Some t \<Rightarrow>
                 if length (tabs t) \<ge> MAX_TABS
                   then io_throw (Error (''Maximum '' @ show_nat MAX_TABS @ '' tabs per template''))
                 else io_bind (updateTemplate P templateId
                                 (no_updates\<lparr>upd_tabs := Some (tabs t @ [tb])\<rparr>)) (\<lambda>_.
                      io_return True))))"

text \<open>The \<^verbatim>\<open>options\<close> argument of \<^verbatim>\<open>launchTemplate\<close>; \<^verbatim>\<open>{}\<close> has both keys \<^verbatim>\<open>undefined\<close>.\<close>

record launch_options =
  openBehavior :: jsval
  closeExisting :: jsval

definition launchTemplate :: "url_parser \<Rightarrow> int \<Rightarrow> string \<Rightarrow> launch_options \<Rightarrow> open_result io" where
  "launchTemplate P now templateId options =
     io_bind (getTemplate templateId) (\<lambda>r.
       (case r of
          None \<Rightarrow> io_throw (Error ''Template not found'')
        | Some t \<Rightarrow>
            if tabs t = [] then io_throw (Error ''Template has no tabs'')
            else
              io_bind (if \<not> truthy (openBehavior options)
                       then io_bind getSettings (\<lambda>s.
                            io_return \<lparr>openBehavior = getprop s ''openBehavior'',
                                       closeExisting = getprop s ''closeExistingTabs''\<rparr>)
                       else io_return options) (\<lambda>opts.
              io_bind (openTabs P (tabs t) (openBehavior opts) (closeExisting opts)) (\<lambda>result.
              io_bind (updateTemplateUsage now templateId) (\<lambda>_.
              io_return result)))))"

definition duplicateTemplate :: "url_parser \<Rightarrow> (nat \<Rightarrow> nat) \<Rightarrow> int \<Rightarrow> string \<Rightarrow> template io" where
  "duplicateTemplate P rnd now templateId =
     io_bind (getTemplate templateId) (\<lambda>r.
       (case r of
          None \<Rightarrow> io_throw (Error ''Template not found'')
        | Some t \<Rightarrow>
            io_bind (saveTemplate P
              (t\<lparr>id' := generateUUID rnd, name := name t @ '' (Copy)'',
                 createdAt := DateStr now, lastUsedAt := None, usageCount := 0\<rparr>)) (\<lambda>_.
            io_return
              (t\<lparr>id' := generateUUID rnd, name := name t @ '' (Copy)'',
                 createdAt := DateStr now, lastUsedAt := None, usageCount := 0\<rparr>))))"

definition exportTemplates :: "int \<Rightarrow> data_file io" where
  "exportTemplates now = exportData now"

definition importTemplates :: "data_file \<Rightarrow> bool \<Rightarrow> nat io" where
  "importTemplates d merge = importData d merge"

section \<open>What is stored, and the properties stated about it\<close>

text \<open>The stored template list and settings, as the service reads them when the read succeeds.\<close>

definition stored_templates :: "world \<Rightarrow> template list" where
  "stored_templates w = (case sync_templates w of None \<Rightarrow> [] | Some ts \<Rightarrow> ts)"

definition stored_settings :: "world \<Rightarrow> settings" where
  "stored_settings w = (case sync_settings w of None \<Rightarrow> DEFAULT_SETTINGS | Some s \<Rightarrow> s)"

text \<open>
  The constraints on the settings record as the specification words them: the four
  enumerations are closed, the three flags are booleans.
\<close>

definition settings_ok :: "settings \<Rightarrow> bool" where
  "settings_ok s =
     (s ''startupBehavior'' \<in> {Some (JStr ''none''), Some (JStr ''show_selector''), Some (JStr ''auto_launch'')} \<and>
      s ''openBehavior'' \<in> {Some (JStr ''new_window''), Some (JStr ''current_window''), Some (JStr ''replace_tabs'')} \<and>
      s ''sortBy'' \<in> {Some (JStr ''name''), Some (JStr ''created''), Some (JStr ''lastUsed''), Some (JStr ''usageCount'')} \<and>
      s ''sortOrder'' \<in> {Some (JStr ''asc''), Some (JStr ''desc'')} \<and>
      s ''closeExistingTabs'' \<in> {Some (JBool True), Some (JBool False)} \<and>
      s ''showFavicons'' \<in> {Some (JBool True), Some (JBool False)} \<and>
      s ''confirmDelete'' \<in> {Some (JBool True), Some (JBool False)})"

definition persisted_ok :: "world \<Rightarrow> bool" where
  "persisted_ok w = (case sync_settings w of None \<Rightarrow> True | Some s \<Rightarrow> settings_ok s)"


section \<open>Example data\<close>

text \<open>
  A parser for the examples: it accepts the strings that start with \<^verbatim>\<open>https://\<close> or
  \<^verbatim>\<open>http://\<close>, as the host's parser does for the URLs used below, and nothing else.
\<close>

definition ex_parser :: url_parser where
  "ex_parser u =
     (if take 8 u = ''https://'' then Some ''https:''
      else if take 7 u = ''http://'' then Some ''http:''
      else None)"

definition ex_tab :: tab where
  "ex_tab = \<lparr>url = ''https://example.com'', title = ''Example'', favicon = None\<rparr>"

definition ex_template :: "string \<Rightarrow> string \<Rightarrow> template" where
  "ex_template i n =
     \<lparr>id' = i, name = n, description = Some [], color = DEFAULT_COLOR, icon = DEFAULT_ICON,
      tabs = [ex_tab], createdAt = DateStr 1000, lastUsedAt = None, usageCount = 0\<rparr>"

definition ex_world :: "template list \<Rightarrow> world" where
  "ex_world ts =
     \<lparr>sync_templates = Some ts, sync_settings = Some DEFAULT_SETTINGS,
      sync_version = Some DATA_VERSION, bytes_in_use = 0, focused_window = 1, fresh_id = 10,
      open_tabs = [], faults = []\<rparr>"

text \<open>An import file whose first template has the id of a stored one.\<close>

definition ex_payload :: data_file where
  "ex_payload =
     \<lparr>version = Some DATA_VERSION, exportedAt = Some (DateStr 500),
      templates = Some [ex_template ''a'' ''Other'', ex_template ''b'' ''Home'']\<rparr>"

text \<open>A store with two templates, and no fault scripted.\<close>

definition ex_store :: world where
  "ex_store = ex_world [ex_template ''a'' ''Work'', ex_template ''b'' ''Home'']"

text \<open>The same store with a setting changed from its default.\<close>

definition ex_custom :: world where
  "ex_custom = ex_store\<lparr>sync_settings := Some (DEFAULT_SETTINGS(''sortBy'' \<mapsto> JStr ''name''))\<rparr>"

text \<open>A template that holds the maximum number of tabs.\<close>

definition ex_full :: template where
  "ex_full = (ex_template ''a'' ''Work'')\<lparr>tabs := replicate 100 ex_tab\<rparr>"

text \<open>
  The options \<^verbatim>\<open>{}\<close>, a template launched before, at the instant 5000, a template whose
  \<^verbatim>\<open>usageCount\<close> is 2 to the power 53, and a template without tabs.
\<close>

definition ex_options :: launch_options where
  "ex_options = \<lparr>openBehavior = JUndefined, closeExisting = JUndefined\<rparr>"



definition ex_empty :: template where
  "ex_empty = (ex_template ''e'' ''Later'')\<lparr>tabs := []\<rparr>"

text \<open>A first run: nothing is stored yet.\<close>

definition ex_fresh :: world where
  "ex_fresh =
     \<lparr>sync_templates = None, sync_settings = None, sync_version = None, bytes_in_use = 0,
      focused_window = 1, fresh_id = 10, open_tabs = [], faults = []\<rparr>"

text \<open>A store whose next host call is rejected, with a setting changed from its default.\<close>

definition ex_outage :: world where
  "ex_outage = ex_store\<lparr>sync_settings := Some (DEFAULT_SETTINGS(''sortBy'' \<mapsto> JStr ''name'')),
                        faults := [True]\<rparr>"

text \<open>A template with a description of 201 characters.\<close>

definition ex_long :: template where
  "ex_long = (ex_template ''l'' ''Notes'')\<lparr>description := Some (replicate 201 (CHR ''x''))\<rparr>"

text \<open>A template whose name has 44 characters, and one whose id is the UUID drawn from zeros.\<close>

definition ex_wordy :: template where
  "ex_wordy = ex_template ''w'' ''Quarterly planning and reporting work spaces''"

definition ex_zero :: template where
  "ex_zero = ex_template ''00000000-0000-4000-8000-000000000000'' ''Work''"

section \<open>Basic facts about the host and the storage service\<close>

declare show_nat.simps [simp del]

declare ulp.simps [simp del]










lemma show_nat_100: "show_nat 100 = ''100''"
  by code_simp

lemma show_nat_50: "show_nat 50 = ''50''"
  by code_simp

lemma show_nat_200: "show_nat 200 = ''200''"
  by code_simp

lemma rejects_nil [simp]: "faults w = [] \<Longrightarrow> \<not> rejects w"
  by (simp add: rejects_def)

lemma advance_fields [simp]:
  "sync_templates (advance w) = sync_templates w"
  "sync_settings (advance w) = sync_settings w"
  "sync_version (advance w) = sync_version w"
  "bytes_in_use (advance w) = bytes_in_use w"
  "focused_window (advance w) = focused_window w"
  "fresh_id (advance w) = fresh_id w"
  "open_tabs (advance w) = open_tabs w"
  "faults (advance w) = tl (faults w)"
  by (simp_all add: advance_def)

lemma advance_nil [simp]: "faults w = [] \<Longrightarrow> advance w = w"
  by (simp add: advance_def)

lemma stored_templates_advance [simp]: "stored_templates (advance w) = stored_templates w"
  by (simp add: stored_templates_def)

lemma stored_settings_advance [simp]: "stored_settings (advance w) = stored_settings w"
  by (simp add: stored_settings_def)

lemma stored_templates_set [simp]: "stored_templates (w\<lparr>sync_templates := Some ts\<rparr>) = ts"
  by (simp add: stored_templates_def)

lemma io_bind_return [simp]: "io_bind (io_return x) f w = f x w"
  by (simp add: io_bind_def io_return_def)

lemma io_bind_throw [simp]: "io_bind (io_throw e) f w = (Inl e, w)"
  by (simp add: io_bind_def io_throw_def)

lemma getTemplates_eq:
  "getTemplates w = (Inr (if rejects w then [] else stored_templates w), advance w)"
  by (simp add: getTemplates_def io_catch_def io_bind_def io_return_def storage_get_templates_def
      host_call_def stored_templates_def)

lemma getTemplate_eq:
  "getTemplate tid w =
     (Inr (find (\<lambda>t. id' t = tid) (if rejects w then [] else stored_templates w)), advance w)"
  by (simp add: getTemplate_def io_catch_def io_bind_def io_return_def getTemplates_eq)

lemma getSettings_eq:
  "getSettings w = (Inr (if rejects w then DEFAULT_SETTINGS else stored_settings w), advance w)"
  by (simp add: getSettings_def io_catch_def io_bind_def io_return_def storage_get_settings_def
      host_call_def stored_settings_def)

lemma storage_set_templates_eq:
  "storage_set_templates ts w =
     (if rejects w then (Inl HostError, advance w)
      else (Inr (), (advance w)\<lparr>sync_templates := Some ts\<rparr>))"
  by (simp add: storage_set_templates_def host_call_def)

lemma storage_set_settings_eq:
  "storage_set_settings s w =
     (if rejects w then (Inl HostError, advance w)
      else (Inr (), (advance w)\<lparr>sync_settings := Some s\<rparr>))"
  by (simp add: storage_set_settings_def host_call_def)

section \<open>Import and export\<close>

lemma importData_merge_eq:
  "templates d = Some imported \<Longrightarrow> importData d True w =
     (if rejects (advance w) then (Inl HostError, advance (advance w))
      else (Inr (length imported),
            (advance (advance w))\<lparr>sync_templates := Some
               ((if rejects w then [] else stored_templates w) @
                filter (\<lambda>t. id' t \<notin> set (map id' (if rejects w then [] else stored_templates w))) imported)\<rparr>))"
  by (simp add: importData_def io_bind_def io_return_def getTemplates_eq storage_set_templates_eq)

lemma importData_replace_eq:
  "templates d = Some imported \<Longrightarrow> importData d False w =
     (if rejects w then (Inl HostError, advance w)
      else (Inr (length imported), (advance w)\<lparr>sync_templates := Some imported\<rparr>))"
  by (simp add: importData_def io_bind_def io_return_def storage_set_templates_eq)

text \<open>
  C10. \<^verbatim>\<open>importData\<close> returns the number of templates in the import file, in both modes:
  whatever the host does, the call either returns that number or throws the rejection of
  the storage write, and it returns it when no host call rejects. With \<^verbatim>\<open>merge = true\<close> the
  store then holds the old list followed by the imported templates whose id was not
  stored, so the number returned counts the skipped templates too; with \<^verbatim>\<open>merge = false\<close>
  the store holds the imported list.
\<close>

theorem importData_returns_payload_count:
  assumes "templates d = Some imported"
  shows "(fst (importData d merge w) = Inr (length imported) \<or> fst (importData d merge w) = Inl HostError)
       \<and> (faults w = [] \<longrightarrow> fst (importData d merge w) = Inr (length imported))
       \<and> (faults w = [] \<longrightarrow> stored_templates (snd (importData d True w)) =
            stored_templates w @ filter (\<lambda>t. id' t \<notin> set (map id' (stored_templates w))) imported)
       \<and> (faults w = [] \<longrightarrow> stored_templates (snd (importData d False w)) = imported)"
proof (cases merge)
  case True
  then show ?thesis
    using assms by (simp add: importData_merge_eq importData_replace_eq)
next
  case False
  then show ?thesis
    using assms by (simp add: importData_merge_eq importData_replace_eq)
qed

text \<open>
  Two templates are imported into a store that holds the id of the first: 2 is returned,
  one template is added.
\<close>

theorem importData_returns_payload_count_witness:
  "templates ex_payload = Some [ex_template ''a'' ''Other'', ex_template ''b'' ''Home'']
   \<and> faults (ex_world [ex_template ''a'' ''Work'']) = []
   \<and> fst (importData ex_payload True (ex_world [ex_template ''a'' ''Work''])) = Inr 2
   \<and> stored_templates (snd (importData ex_payload True (ex_world [ex_template ''a'' ''Work''])))
       = [ex_template ''a'' ''Work'', ex_template ''b'' ''Home'']"
  using importData_returns_payload_count
    [of ex_payload "[ex_template ''a'' ''Other'', ex_template ''b'' ''Home'']" True
        "ex_world [ex_template ''a'' ''Work'']"]
  by (simp add: ex_payload_def ex_world_def stored_templates_def ex_template_def)

lemma exportData_eq:
  "exportData now w =
     (Inr \<lparr>version = Some DATA_VERSION, exportedAt = Some (DateStr now),
           templates = Some (if rejects w then [] else stored_templates w)\<rparr>, advance w)"
  by (simp add: exportData_def io_bind_def io_return_def getTemplates_eq)

lemma filter_known_ids [simp]: "filter (\<lambda>t. id' t \<notin> set (map id' ts)) ts = []"
  by (simp add: filter_empty_conv)

text \<open>
  C4. An export followed by the import of that export with \<^verbatim>\<open>merge = true\<close> leaves the
  stored template list as it was. The export always returns; the list is unchanged
  provided the storage reads of the two calls are not both rejected (a rejected read is
  taken for an empty list by \<^verbatim>\<open>getTemplates\<close>), whatever the write of the import does. When
  no host call rejects, the export holds the stored list, every template of it is
  filtered out as already known, and the import returns the length of the list.
\<close>

theorem export_import_merge_unchanged:
  assumes "\<not> (rejects w \<and> rejects (advance w))"
  shows "(\<exists>d. exportTemplates now w = (Inr d, advance w))
      \<and> (\<forall>d w1. exportTemplates now w = (Inr d, w1) \<longrightarrow>
           stored_templates (snd (importTemplates d True w1)) = stored_templates w
         \<and> (faults w = [] \<longrightarrow> templates d = Some (stored_templates w)
             \<and> filter (\<lambda>t. id' t \<notin> set (map id' (stored_templates w))) (stored_templates w) = []
             \<and> fst (importTemplates d True w1) = Inr (length (stored_templates w))))"
  using assms
  by (simp add: exportTemplates_def exportData_eq importTemplates_def importData_merge_eq)

theorem export_import_merge_unchanged_witness:
  "\<not> (rejects ex_store \<and> rejects (advance ex_store))
   \<and> fst (exportTemplates 500 ex_store)
       = Inr \<lparr>version = Some DATA_VERSION, exportedAt = Some (DateStr 500),
              templates = Some [ex_template ''a'' ''Work'', ex_template ''b'' ''Home'']\<rparr>
   \<and> fst (importTemplates
         \<lparr>version = Some DATA_VERSION, exportedAt = Some (DateStr 500),
          templates = Some [ex_template ''a'' ''Work'', ex_template ''b'' ''Home'']\<rparr> True
         (snd (exportTemplates 500 ex_store))) = Inr 2
   \<and> stored_templates (snd (importTemplates
         \<lparr>version = Some DATA_VERSION, exportedAt = Some (DateStr 500),
          templates = Some [ex_template ''a'' ''Work'', ex_template ''b'' ''Home'']\<rparr> True
         (snd (exportTemplates 500 ex_store))))
       = [ex_template ''a'' ''Work'', ex_template ''b'' ''Home'']"
  using export_import_merge_unchanged [of ex_store 500]
  by (simp add: exportTemplates_def exportData_eq ex_store_def ex_world_def stored_templates_def
      rejects_def)

section \<open>The operations on the template list, in closed form\<close>

lemma findIndex_Some:
  "findIndex p xs = Some i \<Longrightarrow> i < length xs \<and> p (xs ! i)"
  by (induction xs arbitrary: i) (auto split: if_splits)

lemma findIndex_find: "find p xs = map_option (\<lambda>i. xs ! i) (findIndex p xs)"
  by (induction xs) (auto simp: option.map_comp comp_def)

lemma findIndex_None: "findIndex p xs = None \<longleftrightarrow> find p xs = None"
  by (simp add: findIndex_find)

lemma saveTemplate_eq:
  "saveTemplate P t w =
     (case validateTemplate P t of
        Invalid e \<Rightarrow> (Inl (Error e), w)
      | Valid \<Rightarrow>
          if rejects (advance w) then (Inl HostError, advance (advance w))
          else (Inr True, (advance (advance w))\<lparr>sync_templates :=
                  Some ((if rejects w then [] else stored_templates w) @ [t])\<rparr>))"
  by (simp add: saveTemplate_def io_bind_def io_return_def io_throw_def getTemplates_eq
      storage_set_templates_eq split: validation.splits)

lemma updateTemplate_eq:
  "updateTemplate P tid u w =
     (case findIndex (\<lambda>t. id' t = tid) (if rejects w then [] else stored_templates w) of
        None \<Rightarrow> (Inl (Error ''Template not found''), advance w)
      | Some i \<Rightarrow>
          (case validateTemplate P (spread (stored_templates w ! i) u) of
             Invalid e \<Rightarrow> (Inl (Error e), advance w)
           | Valid \<Rightarrow>
               if rejects (advance w) then (Inl HostError, advance (advance w))
               else (Inr True, (advance (advance w))\<lparr>sync_templates :=
                       Some ((stored_templates w)[i := spread (stored_templates w ! i) u])\<rparr>)))"
  by (simp add: updateTemplate_def io_bind_def io_return_def io_throw_def getTemplates_eq
      storage_set_templates_eq split: validation.splits option.splits)

lemma deleteTemplate_eq:
  "deleteTemplate tid w =
     (if rejects (advance w) then (Inl HostError, advance (advance w))
      else (Inr True, (advance (advance w))\<lparr>sync_templates :=
              Some (filter (\<lambda>t. id' t \<noteq> tid) (if rejects w then [] else stored_templates w))\<rparr>))"
  by (simp add: deleteTemplate_def io_bind_def io_return_def getTemplates_eq storage_set_templates_eq)

lemma updateTemplateUsage_eq:
  "updateTemplateUsage now tid w =
     (case findIndex (\<lambda>t. id' t = tid) (if rejects w then [] else stored_templates w) of
        None \<Rightarrow> (Inl (Error ''Template not found''), advance w)
      | Some i \<Rightarrow>
          if rejects (advance w) then (Inl HostError, advance (advance w))
          else (Inr True, (advance (advance w))\<lparr>sync_templates :=
                  Some ((stored_templates w)[i := (stored_templates w ! i)
                     \<lparr>lastUsedAt := Some (DateStr now),
                      usageCount := js_add (usageCount (stored_templates w ! i)) 1\<rparr>])\<rparr>))"
  by (simp add: updateTemplateUsage_def io_bind_def io_return_def io_throw_def getTemplates_eq
      storage_set_templates_eq num_or_def split: option.splits)

section \<open>Distinct template ids\<close>

lemma id_spread: "id' (spread t u) = (case upd_id u of None \<Rightarrow> id' t | Some v \<Rightarrow> v)"
  by (simp add: spread_def)

lemma distinct_save:
  assumes "distinct (map id' (stored_templates w))" and "id' t \<notin> set (map id' (stored_templates w))"
  shows "distinct (map id' (stored_templates (snd (saveTemplate P t w))))"
  using assms by (simp add: saveTemplate_eq split: validation.splits)

lemma distinct_update_at:
  assumes "distinct (map id' ts)" and "i < length ts"
    and "id' x = id' (ts ! i) \<or> id' x \<notin> set (map id' ts)"
  shows "distinct (map id' (ts[i := x]))"
proof -
  have "distinct ((map id' ts)[i := id' x])"
    using assms by (intro distinct_list_update) auto
  then show ?thesis by (simp add: map_update)
qed

lemma distinct_update:
  assumes "distinct (map id' (stored_templates w))"
    and "case upd_id u of None \<Rightarrow> True | Some v \<Rightarrow> v = tid \<or> v \<notin> set (map id' (stored_templates w))"
  shows "distinct (map id' (stored_templates (snd (updateTemplate P tid u w))))"
proof (cases "findIndex (\<lambda>t. id' t = tid) (if rejects w then [] else stored_templates w)")
  case None
  then show ?thesis using assms by (simp add: updateTemplate_eq)
next
  case (Some i)
  then have nr: "\<not> rejects w" by (auto split: if_splits)
  with Some have i: "i < length (stored_templates w)" "id' (stored_templates w ! i) = tid"
    using findIndex_Some [of "\<lambda>t. id' t = tid" "stored_templates w" i] by auto
  have "distinct (map id' ((stored_templates w)[i := spread (stored_templates w ! i) u]))"
    using assms i by (intro distinct_update_at) (auto simp: id_spread split: option.splits)
  then show ?thesis
    using Some assms(1) by (simp add: updateTemplate_eq split: validation.splits)
qed

lemma distinct_delete:
  assumes "distinct (map id' (stored_templates w))"
  shows "distinct (map id' (stored_templates (snd (deleteTemplate tid w))))"
  using assms by (simp add: deleteTemplate_eq distinct_map_filter)

lemma distinct_usage:
  assumes "distinct (map id' (stored_templates w))"
  shows "distinct (map id' (stored_templates (snd (updateTemplateUsage now tid w))))"
proof (cases "findIndex (\<lambda>t. id' t = tid) (if rejects w then [] else stored_templates w)")
  case None
  then show ?thesis using assms by (simp add: updateTemplateUsage_eq)
next
  case (Some i)
  then have nr: "\<not> rejects w" by (auto split: if_splits)
  with Some have i: "i < length (stored_templates w)"
    using findIndex_Some [of "\<lambda>t. id' t = tid" "stored_templates w" i] by auto
  have "distinct (map id' ((stored_templates w)[i := (stored_templates w ! i)
          \<lparr>lastUsedAt := Some (DateStr now), usageCount := js_add (usageCount (stored_templates w ! i)) 1\<rparr>]))"
    using assms i by (intro distinct_update_at) auto
  then show ?thesis
    using Some assms by (simp add: updateTemplateUsage_eq)
qed

lemma distinct_merge:
  assumes "distinct (map id' ts)" and "distinct (map id' imported)"
  shows "distinct (map id' (ts @ filter (\<lambda>t. id' t \<notin> set (map id' ts)) imported))"
proof -
  have "id' ` set ts \<inter> id' ` {x \<in> set imported. id' x \<notin> id' ` set ts} = {}"
    by auto (metis imageI)
  then show ?thesis
    using assms by (simp add: distinct_map_filter)
qed

lemma distinct_import:
  assumes "distinct (map id' (stored_templates w))"
    and "\<forall>imported. templates d = Some imported \<longrightarrow> distinct (map id' imported)"
  shows "distinct (map id' (stored_templates (snd (importData d merge w))))"
proof (cases "templates d")
  case None
  then show ?thesis using assms by (simp add: importData_def io_throw_def)
next
  case (Some imported)
  then have imp: "distinct (map id' imported)" using assms by simp
  show ?thesis
  proof (cases merge)
    case True
    have "distinct (map id' (stored_templates w @
            filter (\<lambda>t. id' t \<notin> set (map id' (stored_templates w))) imported))"
      by (rule distinct_merge [OF assms(1) imp])
    then show ?thesis
      using True Some assms(1) imp by (simp add: importData_merge_eq distinct_map_filter)
  next
    case False
    then show ?thesis
      using Some assms(1) imp by (simp add: importData_replace_eq)
  qed
qed

text \<open>
  C5, as the specification states it, fails: \<^verbatim>\<open>saveTemplate\<close> appends a template that passes
  validation without looking at the stored ids, \<^verbatim>\<open>updateTemplate\<close> merges an \<^verbatim>\<open>id\<close> carried
  by the update, and \<^verbatim>\<open>importData\<close> compares the imported ids with the stored ones only
  (not with each other) when merging and with nothing when replacing. Each of the four
  calls below succeeds on a store with the distinct ids \<open>a\<close> and \<open>b\<close> and leaves a
  repeated id.
\<close>

theorem distinct_ids_counterexample:
  "distinct (map id' (stored_templates ex_store))
   \<and> validateTemplate ex_parser (ex_template ''a'' ''Again'') = Valid
   \<and> fst (saveTemplate ex_parser (ex_template ''a'' ''Again'') ex_store) = Inr True
   \<and> map id' (stored_templates (snd (saveTemplate ex_parser (ex_template ''a'' ''Again'') ex_store)))
        = [''a'', ''b'', ''a'']
   \<and> fst (updateTemplate ex_parser ''a'' (no_updates\<lparr>upd_id := Some ''b''\<rparr>) ex_store) = Inr True
   \<and> map id' (stored_templates (snd (updateTemplate ex_parser ''a'' (no_updates\<lparr>upd_id := Some ''b''\<rparr>) ex_store)))
        = [''b'', ''b'']
   \<and> fst (importData \<lparr>version = None, exportedAt = None,
             templates = Some [ex_template ''c'' ''Read'', ex_template ''c'' ''Read'']\<rparr> True ex_store) = Inr 2
   \<and> map id' (stored_templates (snd (importData \<lparr>version = None, exportedAt = None,
             templates = Some [ex_template ''c'' ''Read'', ex_template ''c'' ''Read'']\<rparr> True ex_store)))
        = [''a'', ''b'', ''c'', ''c'']
   \<and> map id' (stored_templates (snd (importData \<lparr>version = None, exportedAt = None,
             templates = Some [ex_template ''c'' ''Read'', ex_template ''c'' ''Read'']\<rparr> False ex_store)))
        = [''c'', ''c'']"
  by (simp add: ex_store_def ex_world_def ex_template_def saveTemplate_eq updateTemplate_eq
      importData_merge_eq importData_replace_eq spread_def
      validateTemplate_def validateTemplateName_def trim_def is_space_def
      MAX_TEMPLATE_NAME_LENGTH_def validateTab_def validateUrl_def ex_tab_def ex_parser_def
      MAX_URL_LENGTH_def rejects_def no_updates_def stored_templates_def)

text \<open>
  C5, amended. From a stored list with pairwise distinct ids, whatever the host does:
  \<^verbatim>\<open>deleteTemplate\<close> and \<^verbatim>\<open>updateTemplateUsage\<close> leave the ids distinct; \<^verbatim>\<open>saveTemplate\<close> does
  when the id of the saved template is not stored; \<^verbatim>\<open>updateTemplate\<close> does when the update
  carries no \<^verbatim>\<open>id\<close>, or carries the id it is called with or one that is not stored;
  \<^verbatim>\<open>importData\<close>, in both modes, does when the ids of the imported templates are pairwise
  distinct.
\<close>

theorem distinct_ids_preserved:
  assumes "distinct (map id' (stored_templates w))"
  shows "(id' t \<notin> set (map id' (stored_templates w)) \<longrightarrow>
            distinct (map id' (stored_templates (snd (saveTemplate P t w)))))
       \<and> ((case upd_id u of None \<Rightarrow> True
            | Some v \<Rightarrow> v = tid \<or> v \<notin> set (map id' (stored_templates w))) \<longrightarrow>
            distinct (map id' (stored_templates (snd (updateTemplate P tid u w)))))
       \<and> distinct (map id' (stored_templates (snd (deleteTemplate tid w))))
       \<and> distinct (map id' (stored_templates (snd (updateTemplateUsage now tid w))))
       \<and> ((\<forall>imported. templates d = Some imported \<longrightarrow> distinct (map id' imported)) \<longrightarrow>
            distinct (map id' (stored_templates (snd (importData d merge w)))))"
  using assms distinct_save distinct_update distinct_delete distinct_usage distinct_import
  by blast

theorem distinct_ids_preserved_witness:
  "distinct (map id' (stored_templates ex_store))
   \<and> distinct (map id' (stored_templates (snd (saveTemplate ex_parser (ex_template ''c'' ''Read'') ex_store))))
   \<and> stored_templates (snd (saveTemplate ex_parser (ex_template ''c'' ''Read'') ex_store))
       = [ex_template ''a'' ''Work'', ex_template ''b'' ''Home'', ex_template ''c'' ''Read'']
   \<and> distinct (map id' (stored_templates (snd (importData ex_payload True ex_store))))
   \<and> distinct (map id' (stored_templates (snd (deleteTemplate ''a'' ex_store))))"
  using distinct_ids_preserved
    [where w = ex_store and t = "ex_template ''c'' ''Read''" and u = no_updates and tid = "''a''"
       and P = ex_parser and now = 0 and d = ex_payload and merge = True]
  by (simp add: ex_store_def ex_world_def ex_template_def ex_payload_def saveTemplate_eq
      validateTemplate_def validateTemplateName_def trim_def is_space_def
      MAX_TEMPLATE_NAME_LENGTH_def validateTab_def validateUrl_def ex_tab_def ex_parser_def
      MAX_URL_LENGTH_def rejects_def no_updates_def stored_templates_def)

section \<open>Adding a tab to a full template\<close>

lemma addTab_full:
  assumes "validateTab P tb = Valid"
    and "find (\<lambda>t. id' t = tid) (stored_templates w) = Some t"
    and "MAX_TABS \<le> length (tabs t)"
  shows "addTab P tid tb w =
           (Inl (if rejects w then Error ''Template not found''
                 else Error ''Maximum 100 tabs per template''), advance w)"
  using assms
  by (simp add: addTab_def io_bind_def getTemplate_eq io_throw_def show_nat_100 MAX_TABS_def)

text \<open>
  C3. Let \<open>tid\<close> name a stored template (the one the service finds under that id) that holds
  \<^verbatim>\<open>MAX_TABS\<close> = 100 tabs or more, and let the tab pass \<^verbatim>\<open>validateTab\<close>. Then \<^verbatim>\<open>addTab\<close> throws
  and the stored template list is what it was, whatever the host does; when the storage
  read is not rejected the error is the capacity error. (A rejected read is taken for an
  empty list by \<^verbatim>\<open>getTemplates\<close>, and the error is then \<^verbatim>\<open>Template not found\<close>.)
\<close>

theorem addTab_at_capacity:
  assumes "validateTab P tb = Valid"
    and "find (\<lambda>t. id' t = tid) (stored_templates w) = Some t"
    and "MAX_TABS \<le> length (tabs t)"
  shows "(\<exists>e. fst (addTab P tid tb w) = Inl e)
       \<and> sync_templates (snd (addTab P tid tb w)) = sync_templates w
       \<and> (\<not> rejects w \<longrightarrow> fst (addTab P tid tb w) = Inl (Error ''Maximum 100 tabs per template''))"
  by (simp add: addTab_full [OF assms])

theorem addTab_at_capacity_witness:
  "validateTab ex_parser ex_tab = Valid
   \<and> find (\<lambda>t. id' t = ''a'') (stored_templates (ex_world [ex_full])) = Some ex_full
   \<and> length (tabs ex_full) = 100
   \<and> MAX_TABS \<le> length (tabs ex_full)
   \<and> fst (addTab ex_parser ''a'' ex_tab (ex_world [ex_full]))
        = Inl (Error ''Maximum 100 tabs per template'')
   \<and> stored_templates (snd (addTab ex_parser ''a'' ex_tab (ex_world [ex_full]))) = [ex_full]"
  using addTab_at_capacity [of ex_parser ex_tab "''a''" "ex_world [ex_full]" ex_full]
  by (simp add: ex_world_def stored_templates_def ex_full_def ex_template_def validateTab_def
      validateUrl_def ex_tab_def ex_parser_def MAX_URL_LENGTH_def MAX_TABS_def rejects_def)

section \<open>Launching a template\<close>

text \<open>Opening tabs touches the windows and tabs of the browser, never the stored templates.\<close>

lemma host_call_store:
  assumes "\<And>v. sync_templates (snd (act v)) = sync_templates v"
  shows "sync_templates (snd (host_call act w)) = sync_templates w"
  using assms [of "advance w"] by (auto simp: host_call_def split: prod.splits)

lemma io_bind_store:
  assumes "\<And>v. sync_templates (snd (m v)) = sync_templates v"
    and "\<And>x v. sync_templates (snd (f x v)) = sync_templates v"
  shows "sync_templates (snd (io_bind m f w)) = sync_templates w"
proof (cases "m w")
  case (Pair r w')
  then have "sync_templates w' = sync_templates w"
    using assms(1) [of w] by simp
  then show ?thesis
    using Pair assms(2) by (cases r) (simp_all add: io_bind_def)
qed

lemma tabs_create_store: "sync_templates (snd (tabs_create win u w)) = sync_templates w"
  unfolding tabs_create_def by (rule host_call_store) simp

lemma tabs_remove_store: "sync_templates (snd (tabs_remove i w)) = sync_templates w"
  unfolding tabs_remove_def by (rule host_call_store) simp

lemma tabs_query_store: "sync_templates (snd (tabs_query win w)) = sync_templates w"
  unfolding tabs_query_def by (rule host_call_store) simp

lemma windows_create_store: "sync_templates (snd (windows_create u w)) = sync_templates w"
  unfolding windows_create_def by (rule host_call_store) simp

lemma windows_getCurrent_store: "sync_templates (snd (windows_getCurrent w)) = sync_templates w"
  unfolding windows_getCurrent_def by (rule host_call_store) simp

lemma io_return_store: "sync_templates (snd (io_return x w)) = sync_templates w"
  by (simp add: io_return_def)

lemma io_throw_store: "sync_templates (snd (io_throw e w)) = sync_templates w"
  by (simp add: io_throw_def)

lemma create_each_store: "sync_templates (snd (create_each win ts w)) = sync_templates w"
proof (induction ts arbitrary: w)
  case Nil
  show ?case by (simp add: io_return_store)
next
  case (Cons t ts)
  show ?case
    unfolding create_each.simps
    by (rule io_bind_store) (simp_all add: tabs_create_store Cons.IH)
qed

lemma remove_each_store: "sync_templates (snd (remove_each bs w)) = sync_templates w"
proof (induction bs arbitrary: w)
  case Nil
  show ?case by (simp add: io_return_store)
next
  case (Cons b bs)
  show ?case
    unfolding remove_each.simps
    by (rule io_bind_store) (simp_all add: tabs_remove_store Cons.IH)
qed

lemma openInNewWindow_store: "sync_templates (snd (openInNewWindow ts w)) = sync_templates w"
proof (cases ts)
  case Nil
  then show ?thesis by (simp add: openInNewWindow_def io_throw_store)
next
  case (Cons t rest)
  show ?thesis
    unfolding openInNewWindow_def Cons list.case
    by (intro io_bind_store windows_create_store create_each_store io_return_store)
qed

lemma openInCurrentWindow_store:
  "sync_templates (snd (openInCurrentWindow ts w)) = sync_templates w"
  unfolding openInCurrentWindow_def
  by (intro io_bind_store windows_getCurrent_store create_each_store io_return_store)

lemma replaceTabs_store: "sync_templates (snd (replaceTabs ts ce w)) = sync_templates w"
proof -
  have close: "\<And>win v. sync_templates (snd ((if truthy ce
              then io_bind (tabs_query win) (\<lambda>currentTabs.
                   remove_each (filter (\<lambda>b. \<not> pinned b) currentTabs))
              else io_return ()) v)) = sync_templates v"
    by (auto intro!: io_bind_store tabs_query_store remove_each_store io_return_store)
  show ?thesis
    unfolding replaceTabs_def
    by (intro io_bind_store windows_getCurrent_store close create_each_store io_return_store)
qed

lemma openTabs_store: "sync_templates (snd (openTabs P ts ob ce w)) = sync_templates w"
  by (simp add: openTabs_def io_throw_store openInNewWindow_store openInCurrentWindow_store
      replaceTabs_store split: option.splits)



lemma launchTemplate_eq:
  "launchTemplate P now tid options w =
     (case find (\<lambda>t. id' t = tid) (if rejects w then [] else stored_templates w) of
        None \<Rightarrow> (Inl (Error ''Template not found''), advance w)
      | Some t \<Rightarrow>
          if tabs t = [] then (Inl (Error ''Template has no tabs''), advance w)
          else
            (case (if truthy (openBehavior options)
                   then openTabs P (tabs t) (openBehavior options) (closeExisting options) (advance w)
                   else openTabs P (tabs t)
                          (getprop (if rejects (advance w) then DEFAULT_SETTINGS else stored_settings w)
                             ''openBehavior'')
                          (getprop (if rejects (advance w) then DEFAULT_SETTINGS else stored_settings w)
                             ''closeExistingTabs'')
                          (advance (advance w))) of
               (Inl e, w3) \<Rightarrow> (Inl e, w3)
             | (Inr result, w3) \<Rightarrow>
                 (case updateTemplateUsage now tid w3 of
                    (Inl e, w4) \<Rightarrow> (Inl e, w4)
                  | (Inr u, w4) \<Rightarrow> (Inr result, w4))))"
  by (simp add: launchTemplate_def io_bind_def getTemplate_eq getSettings_eq io_throw_def
      io_return_def split: option.splits prod.splits sum.splits)

lemma updateTemplateUsage_failure_store:
  "fst (updateTemplateUsage now tid w) = Inl e \<Longrightarrow>
     sync_templates (snd (updateTemplateUsage now tid w)) = sync_templates w"
  by (simp add: updateTemplateUsage_eq split: option.splits if_splits)

lemma launchTemplate_failure_store:
  assumes "fst (launchTemplate P now tid options w) = Inl e"
  shows "sync_templates (snd (launchTemplate P now tid options w)) = sync_templates w"
proof (cases "find (\<lambda>t. id' t = tid) (if rejects w then [] else stored_templates w)")
  case None
  then show ?thesis by (simp add: launchTemplate_eq)
next
  case (Some t)
  show ?thesis
  proof (cases "tabs t = []")
    case True
    with Some show ?thesis by (simp add: launchTemplate_eq)
  next
    case False
    define attempt where "attempt =
      (if truthy (openBehavior options)
       then openTabs P (tabs t) (openBehavior options) (closeExisting options) (advance w)
       else openTabs P (tabs t)
              (getprop (if rejects (advance w) then DEFAULT_SETTINGS else stored_settings w)
                 ''openBehavior'')
              (getprop (if rejects (advance w) then DEFAULT_SETTINGS else stored_settings w)
                 ''closeExistingTabs'')
              (advance (advance w)))"
    have opened: "sync_templates (snd attempt) = sync_templates w"
      by (simp add: attempt_def openTabs_store)
    have eq: "launchTemplate P now tid options w =
      (case attempt of
         (Inl e, w3) \<Rightarrow> (Inl e, w3)
       | (Inr result, w3) \<Rightarrow>
           (case updateTemplateUsage now tid w3 of
              (Inl e, w4) \<Rightarrow> (Inl e, w4)
            | (Inr u, w4) \<Rightarrow> (Inr result, w4)))"
      using Some False unfolding attempt_def by (simp add: launchTemplate_eq)
    obtain r3 w3 where o: "attempt = (r3, w3)" by (cases attempt)
    with opened have w3: "sync_templates w3 = sync_templates w" by simp
    show ?thesis
    proof (cases r3)
      case (Inl e3)
      with o eq w3 show ?thesis by simp
    next
      case (Inr result)
      obtain r4 w4 where u: "updateTemplateUsage now tid w3 = (r4, w4)"
        by (cases "updateTemplateUsage now tid w3")
      with Inr o eq assms obtain e4 where r4: "r4 = Inl e4"
        by (cases r4) simp_all
      with u have "sync_templates w4 = sync_templates w3"
        using updateTemplateUsage_failure_store [of now tid w3 e4] by simp
      with Inr o eq u r4 w3 show ?thesis by simp
    qed
  qed
qed


text \<open>The definitions unfolded to run a launch on the example data.\<close>

lemmas ex_eval =
  launchTemplate_def getTemplate_def getTemplates_def getSettings_def updateTemplateUsage_def
  openTabs_def openInNewWindow_def io_bind_def io_return_def io_throw_def io_catch_def
  host_call_def storage_get_templates_def storage_get_settings_def storage_set_templates_def
  windows_create_def tabs_create_def rejects_def advance_def default_arg_def getprop_def
  DEFAULT_SETTINGS_def validateUrl_def MAX_URL_LENGTH_def num_or_def stored_templates_def
  ex_world_def ex_template_def ex_tab_def ex_parser_def ex_options_def

text \<open>
  C2. \<^verbatim>\<open>launchTemplate\<close> throws when the id names no stored template, and when the template it
  names has no tabs; and whenever it throws (for these reasons, for a URL that fails
  validation, for a host call rejected while the tabs are opened, or for a failure of the
  usage update itself) the stored template list, and with it every \<^verbatim>\<open>usageCount\<close> and
  \<^verbatim>\<open>lastUsedAt\<close>, is what it was before the call. This holds whatever the host does.
\<close>

theorem launchTemplate_failures:
  "(find (\<lambda>t. id' t = tid) (stored_templates w) = None \<longrightarrow>
      fst (launchTemplate P now tid options w) = Inl (Error ''Template not found''))
   \<and> (\<forall>t. find (\<lambda>t. id' t = tid) (stored_templates w) = Some t \<and> tabs t = [] \<longrightarrow>
        (\<exists>e. fst (launchTemplate P now tid options w) = Inl e)
        \<and> (\<not> rejects w \<longrightarrow>
             fst (launchTemplate P now tid options w) = Inl (Error ''Template has no tabs'')))
   \<and> (\<forall>e. fst (launchTemplate P now tid options w) = Inl e \<longrightarrow>
        sync_templates (snd (launchTemplate P now tid options w)) = sync_templates w)"
  using launchTemplate_failure_store [of P now tid options w]
  by (auto simp: launchTemplate_eq)

text \<open>
  An unknown id; a template without tabs; and a launch in which \<^verbatim>\<open>chrome.windows.create\<close>,
  the third host call, is rejected.
\<close>

theorem launchTemplate_failures_witness:
  "find (\<lambda>t. id' t = ''zz'') (stored_templates ex_store) = None
   \<and> fst (launchTemplate ex_parser 2000 ''zz'' ex_options ex_store) = Inl (Error ''Template not found'')
   \<and> find (\<lambda>t. id' t = ''e'') (stored_templates (ex_world [ex_empty])) = Some ex_empty
   \<and> tabs ex_empty = []
   \<and> fst (launchTemplate ex_parser 2000 ''e'' ex_options (ex_world [ex_empty]))
       = Inl (Error ''Template has no tabs'')
   \<and> sync_templates (snd (launchTemplate ex_parser 2000 ''e'' ex_options (ex_world [ex_empty])))
       = Some [ex_empty]
   \<and> fst (launchTemplate ex_parser 2000 ''a'' ex_options (ex_store\<lparr>faults := [False, False, True]\<rparr>))
       = Inl HostError
   \<and> sync_templates (snd (launchTemplate ex_parser 2000 ''a'' ex_options
         (ex_store\<lparr>faults := [False, False, True]\<rparr>)))
       = Some [ex_template ''a'' ''Work'', ex_template ''b'' ''Home'']"
  using launchTemplate_failures [of "''zz''" ex_store ex_parser 2000 ex_options]
    launchTemplate_failures [of "''e''" "ex_world [ex_empty]" ex_parser 2000 ex_options]
    launchTemplate_failures [of "''a''" "ex_store\<lparr>faults := [False, False, True]\<rparr>" ex_parser 2000 ex_options]
  by (simp add: ex_eval ex_store_def ex_empty_def)





section \<open>The settings record\<close>

lemma includes_str_iff: "includes_str xs (getprop s k) \<longleftrightarrow> s k \<in> (\<lambda>x. Some (JStr x)) ` set xs"
  by (auto simp: includes_str_def getprop_def split: option.splits jsval.splits)

lemma is_boolean_iff: "is_boolean (getprop s k) \<longleftrightarrow> s k \<in> {Some (JBool True), Some (JBool False)}"
  by (auto simp: is_boolean_def getprop_def split: option.splits jsval.splits)

lemma validateSettings_Valid_iff:
  "validateSettings s = Valid \<longleftrightarrow>
     includes_str [''none'', ''show_selector'', ''auto_launch''] (getprop s ''startupBehavior'')
   \<and> includes_str [''new_window'', ''current_window'', ''replace_tabs''] (getprop s ''openBehavior'')
   \<and> includes_str [''name'', ''created'', ''lastUsed'', ''usageCount''] (getprop s ''sortBy'')
   \<and> includes_str [''asc'', ''desc''] (getprop s ''sortOrder'')
   \<and> includes_str [''auto'', ''light'', ''dark''] (getprop s ''theme'')
   \<and> is_boolean (getprop s ''closeExistingTabs'')
   \<and> is_boolean (getprop s ''showFavicons'')
   \<and> is_boolean (getprop s ''confirmDelete'')"
  by (simp add: validateSettings_def)

lemma validateSettings_iff:
  "validateSettings s = Valid \<longleftrightarrow>
     settings_ok s \<and> s ''theme'' \<in> {Some (JStr ''auto''), Some (JStr ''light''), Some (JStr ''dark'')}"
  unfolding validateSettings_Valid_iff includes_str_iff is_boolean_iff settings_ok_def
  by (simp only: list.set image_insert image_empty) blast

lemma validateSettings_ok: "validateSettings s = Valid \<Longrightarrow> settings_ok s"
  by (simp add: validateSettings_iff)

lemma default_settings_ok: "settings_ok DEFAULT_SETTINGS"
  by (simp add: settings_ok_def DEFAULT_SETTINGS_def)

lemma updateSettings_eq:
  "updateSettings u w =
     (case validateSettings ((if rejects w then DEFAULT_SETTINGS else stored_settings w) ++ u) of
        Invalid e \<Rightarrow> (Inl (Error e), advance w)
      | Valid \<Rightarrow>
          if rejects (advance w) then (Inl HostError, advance (advance w))
          else (Inr True, (advance (advance w))\<lparr>sync_settings :=
                  Some ((if rejects w then DEFAULT_SETTINGS else stored_settings w) ++ u)\<rparr>))"
  by (simp add: updateSettings_def io_bind_def io_return_def io_throw_def getSettings_eq
      storage_set_settings_eq split: validation.splits)

lemma resetSettings_eq:
  "resetSettings w =
     (if rejects w then (Inl HostError, advance w)
      else (Inr True, (advance w)\<lparr>sync_settings := Some DEFAULT_SETTINGS\<rparr>))"
  by (simp add: resetSettings_def io_bind_def io_return_def storage_set_settings_eq)

lemma storage_set_version_eq:
  "storage_set_version v w =
     (if rejects w then (Inl HostError, advance w)
      else (Inr (), (advance w)\<lparr>sync_version := Some v\<rparr>))"
  by (simp add: storage_set_version_def host_call_def)

lemma storage_get_all_eq:
  "storage_get_all w =
     (if rejects w then (Inl HostError, advance w)
      else (Inr (sync_templates w, sync_settings w, sync_version w), advance w))"
  by (simp add: storage_get_all_def host_call_def)

lemma initialize_settings:
  "sync_settings (snd (initialize w)) = sync_settings w
   \<or> sync_settings (snd (initialize w)) = Some DEFAULT_SETTINGS"
  by (simp add: initialize_def io_catch_def io_bind_def io_return_def storage_get_all_eq
      storage_set_templates_eq storage_set_settings_eq storage_set_version_eq)

lemma initialize_first_run:
  "sync_settings w = None \<Longrightarrow> faults w = [] \<Longrightarrow>
     fst (initialize w) = Inr True \<and> sync_settings (snd (initialize w)) = Some DEFAULT_SETTINGS"
  by (simp add: initialize_def io_catch_def io_bind_def io_return_def storage_get_all_eq
      storage_set_templates_eq storage_set_settings_eq storage_set_version_eq)

lemma persisted_ok_advance [simp]: "persisted_ok (advance w) = persisted_ok w"
  by (simp add: persisted_ok_def)

lemma persisted_cases:
  "sync_settings v = sync_settings w \<or> (\<exists>s. sync_settings v = Some s \<and> settings_ok s)
     \<Longrightarrow> persisted_ok w \<Longrightarrow> persisted_ok v"
  by (auto simp: persisted_ok_def)

lemma updateSettings_outcome:
  "fst (updateSettings u w) = Inr True
     \<and> sync_settings (snd (updateSettings u w)) =
         Some ((if rejects w then DEFAULT_SETTINGS else stored_settings w) ++ u)
     \<and> settings_ok ((if rejects w then DEFAULT_SETTINGS else stored_settings w) ++ u)
   \<or> (\<exists>e. fst (updateSettings u w) = Inl e)
     \<and> sync_settings (snd (updateSettings u w)) = sync_settings w"
proof (cases "validateSettings ((if rejects w then DEFAULT_SETTINGS else stored_settings w) ++ u)")
  case Valid
  then have "settings_ok ((if rejects w then DEFAULT_SETTINGS else stored_settings w) ++ u)"
    by (rule validateSettings_ok)
  with Valid show ?thesis
    unfolding updateSettings_eq by (cases "rejects (advance w)") simp_all
next
  case (Invalid e)
  then show ?thesis
    unfolding updateSettings_eq by simp
qed

lemma resetSettings_outcome:
  "fst (resetSettings w) = Inr True \<and> sync_settings (snd (resetSettings w)) = Some DEFAULT_SETTINGS
   \<or> fst (resetSettings w) = Inl HostError \<and> sync_settings (snd (resetSettings w)) = sync_settings w"
  by (simp add: resetSettings_eq)

lemma persisted_initialize: "persisted_ok w \<Longrightarrow> persisted_ok (snd (initialize w))"
  using initialize_settings [of w]
  by (elim disjE) (simp_all add: persisted_ok_def default_settings_ok)

lemma persisted_resetSettings: "persisted_ok w \<Longrightarrow> persisted_ok (snd (resetSettings w))"
  by (simp add: resetSettings_eq persisted_ok_def default_settings_ok)

lemma persisted_updateSettings: "persisted_ok w \<Longrightarrow> persisted_ok (snd (updateSettings u w))"
  using updateSettings_outcome [of u w]
  by (elim disjE conjE) (simp_all add: persisted_ok_def)

text \<open>
  C6. The default settings satisfy the enumeration and boolean constraints. \<^verbatim>\<open>initialize\<close>
  leaves the stored settings as they are or writes the defaults, and writes them on a first
  run on which no host call rejects; \<^verbatim>\<open>resetSettings\<close> writes the defaults when its storage
  write is not rejected, and throws and leaves the stored settings unchanged when it is; \<^verbatim>\<open>updateSettings\<close>, for every stored record and
  every update, either persists the merged record, which then satisfies the constraints,
  or throws and leaves the stored settings unchanged, and it succeeds when the merged
  record passes \<^verbatim>\<open>validateSettings\<close> and no host call rejects. Hence a store whose settings
  are absent or satisfy the constraints stays so under the three operations, whatever the
  host does.
\<close>

theorem settings_constraints_maintained:
  "settings_ok DEFAULT_SETTINGS
   \<and> (sync_settings (snd (initialize w)) = sync_settings w
        \<or> sync_settings (snd (initialize w)) = Some DEFAULT_SETTINGS)
   \<and> (sync_settings w = None \<and> faults w = [] \<longrightarrow>
        fst (initialize w) = Inr True \<and> sync_settings (snd (initialize w)) = Some DEFAULT_SETTINGS)
   \<and> (fst (resetSettings w) = Inr True \<and> sync_settings (snd (resetSettings w)) = Some DEFAULT_SETTINGS
        \<or> fst (resetSettings w) = Inl HostError \<and> sync_settings (snd (resetSettings w)) = sync_settings w)
   \<and> (\<not> rejects w \<longrightarrow>
        fst (resetSettings w) = Inr True \<and> sync_settings (snd (resetSettings w)) = Some DEFAULT_SETTINGS)
   \<and> (rejects w \<longrightarrow>
        fst (resetSettings w) = Inl HostError \<and> sync_settings (snd (resetSettings w)) = sync_settings w)
   \<and> (fst (updateSettings u w) = Inr True
          \<and> sync_settings (snd (updateSettings u w)) =
              Some ((if rejects w then DEFAULT_SETTINGS else stored_settings w) ++ u)
          \<and> settings_ok ((if rejects w then DEFAULT_SETTINGS else stored_settings w) ++ u)
        \<or> (\<exists>e. fst (updateSettings u w) = Inl e)
          \<and> sync_settings (snd (updateSettings u w)) = sync_settings w)
   \<and> (faults w = [] \<and> validateSettings (stored_settings w ++ u) = Valid \<longrightarrow>
        fst (updateSettings u w) = Inr True)
   \<and> (persisted_ok w \<longrightarrow>
        persisted_ok (snd (initialize w)) \<and> persisted_ok (snd (resetSettings w))
        \<and> persisted_ok (snd (updateSettings u w)))"
proof -
  have first: "sync_settings w = None \<and> faults w = [] \<longrightarrow>
        fst (initialize w) = Inr True \<and> sync_settings (snd (initialize w)) = Some DEFAULT_SETTINGS"
    using initialize_first_run [of w] by blast
  have run: "faults w = [] \<and> validateSettings (stored_settings w ++ u) = Valid \<longrightarrow>
        fst (updateSettings u w) = Inr True"
    by (simp add: updateSettings_eq)
  have reset_done: "\<not> rejects w \<longrightarrow>
        fst (resetSettings w) = Inr True \<and> sync_settings (snd (resetSettings w)) = Some DEFAULT_SETTINGS"
    by (simp add: resetSettings_eq)
  have reset_failed: "rejects w \<longrightarrow>
        fst (resetSettings w) = Inl HostError \<and> sync_settings (snd (resetSettings w)) = sync_settings w"
    by (simp add: resetSettings_eq)
  have inv: "persisted_ok w \<longrightarrow>
        persisted_ok (snd (initialize w)) \<and> persisted_ok (snd (resetSettings w))
        \<and> persisted_ok (snd (updateSettings u w))"
    by (intro impI conjI persisted_initialize persisted_resetSettings persisted_updateSettings)
  show ?thesis
    by (intro conjI)
      (rule default_settings_ok initialize_settings first resetSettings_outcome
         reset_done reset_failed updateSettings_outcome run inv)+
qed

lemma ex_store_settings: "faults ex_store = [] \<and> stored_settings ex_store = DEFAULT_SETTINGS"
  by (simp add: ex_store_def ex_world_def stored_settings_def)

lemma ex_fresh_settings: "sync_settings ex_fresh = None \<and> faults ex_fresh = []"
  by (simp add: ex_fresh_def)

lemma ex_patch_valid: "validateSettings (DEFAULT_SETTINGS ++ [''sortBy'' \<mapsto> JStr ''name'']) = Valid"
  by (simp add: validateSettings_def includes_str_def is_boolean_def getprop_def
      DEFAULT_SETTINGS_def map_add_def)

theorem settings_constraints_maintained_witness:
  "sync_settings ex_fresh = None \<and> faults ex_fresh = []
   \<and> fst (initialize ex_fresh) = Inr True
   \<and> sync_settings (snd (initialize ex_fresh)) = Some DEFAULT_SETTINGS
   \<and> faults ex_store = []
   \<and> persisted_ok ex_store
   \<and> validateSettings (stored_settings ex_store ++ [''sortBy'' \<mapsto> JStr ''name'']) = Valid
   \<and> fst (updateSettings [''sortBy'' \<mapsto> JStr ''name''] ex_store) = Inr True
   \<and> sync_settings (snd (updateSettings [''sortBy'' \<mapsto> JStr ''name''] ex_store))
       = Some (DEFAULT_SETTINGS ++ [''sortBy'' \<mapsto> JStr ''name''])
   \<and> settings_ok (DEFAULT_SETTINGS ++ [''sortBy'' \<mapsto> JStr ''name''])
   \<and> persisted_ok (snd (updateSettings [''sortBy'' \<mapsto> JStr ''name''] ex_store))
   \<and> \<not> rejects ex_custom
   \<and> sync_settings ex_custom = Some (DEFAULT_SETTINGS(''sortBy'' \<mapsto> JStr ''name''))
   \<and> fst (resetSettings ex_custom) = Inr True
   \<and> sync_settings (snd (resetSettings ex_custom)) = Some DEFAULT_SETTINGS
   \<and> rejects ex_outage
   \<and> fst (resetSettings ex_outage) = Inl HostError
   \<and> sync_settings (snd (resetSettings ex_outage))
       = Some (DEFAULT_SETTINGS(''sortBy'' \<mapsto> JStr ''name''))"
proof -
  let ?u = "[''sortBy'' \<mapsto> JStr ''name'']"
  note fresh = settings_constraints_maintained [of ex_fresh ?u]
  note store = settings_constraints_maintained [of ex_store ?u]
  note custom = settings_constraints_maintained [of ex_custom ?u]
  note outage = settings_constraints_maintained [of ex_outage ?u]
  have cw: "\<not> rejects ex_custom
      \<and> sync_settings ex_custom = Some (DEFAULT_SETTINGS(''sortBy'' \<mapsto> JStr ''name''))"
    by (simp add: ex_custom_def ex_store_def ex_world_def)
  have reset: "fst (resetSettings ex_custom) = Inr True
      \<and> sync_settings (snd (resetSettings ex_custom)) = Some DEFAULT_SETTINGS"
    using custom cw by blast
  have ow: "rejects ex_outage
      \<and> sync_settings ex_outage = Some (DEFAULT_SETTINGS(''sortBy'' \<mapsto> JStr ''name''))"
    by (simp add: ex_outage_def ex_store_def ex_world_def rejects_def)
  have refused: "fst (resetSettings ex_outage) = Inl HostError
      \<and> sync_settings (snd (resetSettings ex_outage)) = sync_settings ex_outage"
    using outage ow by blast
  have valid: "validateSettings (stored_settings ex_store ++ ?u) = Valid"
    using ex_patch_valid by (simp add: ex_store_settings)
  have ok: "persisted_ok ex_store"
    using store by (simp add: persisted_ok_def ex_store_def ex_world_def)
  have ini: "fst (initialize ex_fresh) = Inr True
      \<and> sync_settings (snd (initialize ex_fresh)) = Some DEFAULT_SETTINGS"
    using fresh ex_fresh_settings by blast
  have run: "fst (updateSettings ?u ex_store) = Inr True"
    using store valid ex_store_settings by blast
  have written: "sync_settings (snd (updateSettings ?u ex_store)) = Some (DEFAULT_SETTINGS ++ ?u)
      \<and> settings_ok (DEFAULT_SETTINGS ++ ?u)"
    using store run by (simp add: ex_store_settings)
  have kept: "persisted_ok (snd (updateSettings ?u ex_store))"
    using store ok by blast
  show ?thesis
    using ex_fresh_settings ini ex_store_settings ok valid run written kept cw reset ow refused
    by simp
qed

section \<open>Failures: raised or degraded\<close>

lemma getStorageInfo_eq:
  "getStorageInfo w =
     (Inr (if rejects w then None
           else Some \<lparr>bytesInUse = bytes_in_use w, quota = QUOTA_BYTES,
                      available = int QUOTA_BYTES - int (bytes_in_use w)\<rparr>), advance w)"
  by (simp add: getStorageInfo_def io_catch_def io_bind_def io_return_def
      storage_getBytesInUse_def host_call_def)

lemma initialize_rejected: "rejects w \<Longrightarrow> fst (initialize w) = Inr False"
  by (simp add: initialize_def io_catch_def io_bind_def io_return_def storage_get_all_eq)

lemma clearTemplates_eq:
  "clearTemplates w =
     (if rejects w then (Inl HostError, advance w)
      else (Inr True, (advance w)\<lparr>sync_templates := Some []\<rparr>))"
  by (simp add: clearTemplates_def io_bind_def io_return_def storage_set_templates_eq)

lemma ex_outage_rejects: "rejects ex_outage"
  by (simp add: ex_outage_def rejects_def)

text \<open>
  C8, as the specification states it, fails for the two reads it names: \<^verbatim>\<open>getTemplates\<close> and
  \<^verbatim>\<open>getSettings\<close> catch the rejection of the storage read and return the empty list and the
  default settings. Here the store holds two templates and a changed \<^verbatim>\<open>sortBy\<close>, the read is
  rejected, and the caller receives \<^verbatim>\<open>[]\<close> and the defaults, not an error.
\<close>

theorem read_failure_counterexample:
  "rejects ex_outage
   \<and> stored_templates ex_outage = [ex_template ''a'' ''Work'', ex_template ''b'' ''Home'']
   \<and> fst (getTemplates ex_outage) = Inr []
   \<and> stored_settings ex_outage ''sortBy'' = Some (JStr ''name'')
   \<and> fst (getSettings ex_outage) = Inr DEFAULT_SETTINGS
   \<and> DEFAULT_SETTINGS ''sortBy'' = Some (JStr ''lastUsed'')"
  by (simp add: getTemplates_eq getSettings_eq ex_outage_rejects)
    (simp add: ex_outage_def ex_store_def ex_world_def stored_templates_def stored_settings_def
      DEFAULT_SETTINGS_def)

text \<open>
  C8, amended. When the storage read is rejected, \<^verbatim>\<open>getTemplates\<close> returns the empty list,
  \<^verbatim>\<open>getTemplate\<close> returns \<^verbatim>\<open>null\<close>, \<^verbatim>\<open>getSettings\<close> returns the default settings,
  \<^verbatim>\<open>getStorageInfo\<close> returns \<^verbatim>\<open>null\<close> and \<^verbatim>\<open>initialize\<close> returns \<^verbatim>\<open>false\<close>: none of them throws.
  The operations that write raise their failures: the rejection of the storage write in
  \<^verbatim>\<open>resetSettings\<close>, \<^verbatim>\<open>clearTemplates\<close>, \<^verbatim>\<open>importData\<close>, \<^verbatim>\<open>deleteTemplate\<close>, \<^verbatim>\<open>saveTemplate\<close> and
  \<^verbatim>\<open>updateSettings\<close>, the validation error of \<^verbatim>\<open>saveTemplate\<close> and \<^verbatim>\<open>updateSettings\<close>, and the
  format error of \<^verbatim>\<open>importData\<close>.
\<close>

theorem failures_raised_or_degraded:
  "(rejects w \<longrightarrow>
      fst (getTemplates w) = Inr [] \<and> fst (getTemplate tid w) = Inr None
      \<and> fst (getSettings w) = Inr DEFAULT_SETTINGS \<and> fst (getStorageInfo w) = Inr None
      \<and> fst (initialize w) = Inr False)
   \<and> (rejects w \<longrightarrow>
      fst (resetSettings w) = Inl HostError \<and> fst (clearTemplates w) = Inl HostError
      \<and> (templates d \<noteq> None \<longrightarrow> fst (importData d False w) = Inl HostError))
   \<and> (rejects (advance w) \<longrightarrow>
      fst (deleteTemplate tid w) = Inl HostError
      \<and> (validateTemplate P t = Valid \<longrightarrow> fst (saveTemplate P t w) = Inl HostError)
      \<and> (templates d \<noteq> None \<longrightarrow> fst (importData d True w) = Inl HostError)
      \<and> (validateSettings ((if rejects w then DEFAULT_SETTINGS else stored_settings w) ++ u) = Valid \<longrightarrow>
           fst (updateSettings u w) = Inl HostError))
   \<and> (\<forall>e. validateTemplate P t = Invalid e \<longrightarrow> fst (saveTemplate P t w) = Inl (Error e))
   \<and> (\<forall>e. validateSettings ((if rejects w then DEFAULT_SETTINGS else stored_settings w) ++ u) = Invalid e \<longrightarrow>
        fst (updateSettings u w) = Inl (Error e))
   \<and> (templates d = None \<longrightarrow> fst (importData d merge w) = Inl (Error ''Invalid import data format''))"
proof -
  have imp_none: "templates d = None \<longrightarrow>
      fst (importData d merge w) = Inl (Error ''Invalid import data format'')"
    by (simp add: importData_def io_throw_def)
  have imp_replace: "rejects w \<longrightarrow> templates d \<noteq> None \<longrightarrow> fst (importData d False w) = Inl HostError"
    by (auto simp: importData_replace_eq)
  have imp_merge: "rejects (advance w) \<longrightarrow> templates d \<noteq> None \<longrightarrow>
      fst (importData d True w) = Inl HostError"
    by (auto simp: importData_merge_eq)
  show ?thesis
    using imp_none imp_replace imp_merge
    by (simp add: getTemplates_eq getTemplate_eq getSettings_eq getStorageInfo_eq
        initialize_rejected resetSettings_eq clearTemplates_eq deleteTemplate_eq saveTemplate_eq
        updateSettings_eq)
qed

theorem failures_raised_or_degraded_witness:
  "rejects ex_outage
   \<and> fst (getTemplates ex_outage) = Inr []
   \<and> fst (getTemplate ''a'' ex_outage) = Inr None
   \<and> fst (getSettings ex_outage) = Inr DEFAULT_SETTINGS
   \<and> fst (getStorageInfo ex_outage) = Inr None
   \<and> fst (resetSettings ex_outage) = Inl HostError
   \<and> fst (clearTemplates ex_outage) = Inl HostError"
  using failures_raised_or_degraded [of ex_outage "''a''"] ex_outage_rejects
  by blast

section \<open>Validation of the example templates\<close>

lemma validateTemplate_ignores_description:
  "validateTemplate P (t\<lparr>description := d\<rparr>) = validateTemplate P t"
  by (simp add: validateTemplate_def split: validation.splits)

lemma ex_template_valid: "i \<noteq> [] \<Longrightarrow> validateTemplateName n = Valid \<Longrightarrow>
    validateTemplate ex_parser (ex_template i n) = Valid"
  by (simp add: validateTemplate_def ex_template_def validateTab_def validateUrl_def ex_tab_def
      ex_parser_def MAX_URL_LENGTH_def)

lemma name_Notes: "validateTemplateName ''Notes'' = Valid"
  by (simp add: validateTemplateName_def trim_def is_space_def MAX_TEMPLATE_NAME_LENGTH_def)

section \<open>Duplicating a template\<close>

lemma trim_empty_iff: "trim s = [] \<longleftrightarrow> (\<forall>c \<in> set s. is_space c)"
proof
  assume "trim s = []"
  then have all: "\<forall>c \<in> set (dropWhile is_space s). is_space c"
    by (simp add: trim_def dropWhile_eq_Nil_conv)
  show "\<forall>c \<in> set s. is_space c"
  proof (rule ccontr)
    assume "\<not> (\<forall>c \<in> set s. is_space c)"
    then have ne: "dropWhile is_space s \<noteq> []"
      by (simp add: dropWhile_eq_Nil_conv)
    then have "\<not> is_space (hd (dropWhile is_space s))"
      by (rule hd_dropWhile)
    moreover have "hd (dropWhile is_space s) \<in> set (dropWhile is_space s)"
      using ne by simp
    ultimately show False using all by blast
  qed
next
  assume "\<forall>c \<in> set s. is_space c"
  then have "dropWhile is_space s = []"
    by (simp add: dropWhile_eq_Nil_conv)
  then show "trim s = []"
    unfolding trim_def by (simp only: rev.simps dropWhile.simps)
qed

lemma trim_copy_nonempty: "trim (n @ '' (Copy)'') \<noteq> []"
proof -
  have "\<not> is_space (CHR ''C'')" by (simp add: is_space_def)
  then show ?thesis by (auto simp: trim_empty_iff)
qed

lemma copy_name_valid:
  "length (trim (n @ '' (Copy)'')) \<le> MAX_TEMPLATE_NAME_LENGTH \<Longrightarrow>
     validateTemplateName (n @ '' (Copy)'') = Valid"
  using trim_copy_nonempty [of n] by (simp add: validateTemplateName_def)

lemma generateUUID_nonempty: "generateUUID rnd \<noteq> []"
  by (simp add: generateUUID_def)

lemma length_uuid_fill: "length (uuid_fill p rnd k) = length p"
  by (induction p arbitrary: k) simp_all

lemma length_generateUUID: "length (generateUUID rnd) = 36"
  by (simp add: generateUUID_def length_uuid_fill)

lemma validateTemplate_Valid_iff:
  "validateTemplate P t = Valid \<longleftrightarrow>
     id' t \<noteq> [] \<and> validateTemplateName (name t) = Valid \<and> validateTabsFrom P 0 (tabs t) = Valid
     \<and> isValidDate (createdAt t)
     \<and> (case lastUsedAt t of None \<Rightarrow> True | Some d \<Rightarrow> isValidDate d)
     \<and> 0 \<le> usageCount t"
  by (auto simp: validateTemplate_def split: validation.splits option.splits)

lemma duplicate_valid:
  assumes "validateTemplate P t = Valid"
    and "length (trim (name t @ '' (Copy)'')) \<le> MAX_TEMPLATE_NAME_LENGTH"
  shows "validateTemplate P
           (t\<lparr>id' := generateUUID rnd, name := name t @ '' (Copy)'', createdAt := DateStr now,
              lastUsedAt := None, usageCount := 0\<rparr>) = Valid"
  using assms
  by (simp add: validateTemplate_Valid_iff generateUUID_nonempty copy_name_valid)

lemma duplicateTemplate_eq:
  "duplicateTemplate P rnd now tid w =
     (case find (\<lambda>t. id' t = tid) (if rejects w then [] else stored_templates w) of
        None \<Rightarrow> (Inl (Error ''Template not found''), advance w)
      | Some t \<Rightarrow>
          (case saveTemplate P
                  (t\<lparr>id' := generateUUID rnd, name := name t @ '' (Copy)'',
                     createdAt := DateStr now, lastUsedAt := None, usageCount := 0\<rparr>) (advance w) of
             (Inl e, w') \<Rightarrow> (Inl e, w')
           | (Inr ok, w') \<Rightarrow>
               (Inr (t\<lparr>id' := generateUUID rnd, name := name t @ '' (Copy)'',
                       createdAt := DateStr now, lastUsedAt := None, usageCount := 0\<rparr>), w')))"
  by (simp add: duplicateTemplate_def io_bind_def getTemplate_eq io_throw_def io_return_def
      split: option.splits prod.splits sum.splits)

lemma name_wordy: "validateTemplateName ''Quarterly planning and reporting work spaces'' = Valid"
  by (simp add: validateTemplateName_def trim_def is_space_def MAX_TEMPLATE_NAME_LENGTH_def)

lemma name_wordy_copy:
  "validateTemplateName (''Quarterly planning and reporting work spaces'' @ '' (Copy)'')
     = Invalid ''Template name must be 50 characters or less''"
  by (simp add: validateTemplateName_def trim_def is_space_def MAX_TEMPLATE_NAME_LENGTH_def
      show_nat_50)

lemma name_Work: "validateTemplateName ''Work'' = Valid"
  by (simp add: validateTemplateName_def trim_def is_space_def MAX_TEMPLATE_NAME_LENGTH_def)

lemma name_Work_copy: "length (trim (''Work'' @ '' (Copy)'')) \<le> MAX_TEMPLATE_NAME_LENGTH"
  by (simp add: trim_def is_space_def MAX_TEMPLATE_NAME_LENGTH_def)

lemma uuid_zero: "generateUUID (\<lambda>k. 0) = ''00000000-0000-4000-8000-000000000000''"
  by (simp add: generateUUID_def hex_digit_def)

text \<open>
  C9, as the specification states it, fails: the copy is saved through \<^verbatim>\<open>saveTemplate\<close>, whose
  validation bounds the trimmed name by \<^verbatim>\<open>MAX_TEMPLATE_NAME_LENGTH\<close> = 50, and the suffix adds
  7 characters. A stored, valid template with a name of 44 characters cannot be duplicated:
  the call throws and the store is unchanged. Nor is the new id compared with the stored
  ids: when \<^verbatim>\<open>generateUUID\<close> draws the id of a stored template, the copy is stored under that
  same id. And the call throws when its storage write (the third host call) is rejected.
\<close>

theorem duplicateTemplate_counterexample:
  "find (\<lambda>t. id' t = ''w'') (stored_templates (ex_world [ex_wordy])) = Some ex_wordy
   \<and> validateTemplate ex_parser ex_wordy = Valid
   \<and> length (name ex_wordy) = 44
   \<and> faults (ex_world [ex_wordy]) = []
   \<and> fst (duplicateTemplate ex_parser (\<lambda>k. k) 2000 ''w'' (ex_world [ex_wordy]))
       = Inl (Error ''Template name must be 50 characters or less'')
   \<and> stored_templates (snd (duplicateTemplate ex_parser (\<lambda>k. k) 2000 ''w'' (ex_world [ex_wordy])))
       = [ex_wordy]
   \<and> find (\<lambda>t. id' t = id' ex_zero) (stored_templates (ex_world [ex_zero])) = Some ex_zero
   \<and> map id' (stored_templates (snd (duplicateTemplate ex_parser (\<lambda>k. 0) 2000 (id' ex_zero)
         (ex_world [ex_zero])))) = [id' ex_zero, id' ex_zero]
   \<and> fst (duplicateTemplate ex_parser (\<lambda>k. k) 2000 ''a'' (ex_store\<lparr>faults := [False, False, True]\<rparr>))
       = Inl HostError"
proof -
  have av: "validateTemplate ex_parser
      ((ex_template ''a'' ''Work'')\<lparr>id' := generateUUID (\<lambda>k. k),
         name := name (ex_template ''a'' ''Work'') @ '' (Copy)'',
         createdAt := DateStr 2000, lastUsedAt := None, usageCount := 0\<rparr>) = Valid"
  proof (rule duplicate_valid)
    show "validateTemplate ex_parser (ex_template ''a'' ''Work'') = Valid"
      by (simp add: ex_template_valid name_Work)
    show "length (trim (name (ex_template ''a'' ''Work'') @ '' (Copy)'')) \<le> MAX_TEMPLATE_NAME_LENGTH"
      using name_Work_copy by (simp add: ex_template_def)
  qed
  have af: "find (\<lambda>t. id' t = ''a'') (stored_templates (ex_store\<lparr>faults := [False, False, True]\<rparr>))
      = Some (ex_template ''a'' ''Work'')"
    by (simp add: ex_store_def ex_world_def stored_templates_def) (simp add: ex_template_def)
  have ar: "\<not> rejects (ex_store\<lparr>faults := [False, False, True]\<rparr>)"
    "\<not> rejects (advance (ex_store\<lparr>faults := [False, False, True]\<rparr>))"
    "rejects (advance (advance (ex_store\<lparr>faults := [False, False, True]\<rparr>)))"
    by (simp_all add: rejects_def)
  have outage: "fst (duplicateTemplate ex_parser (\<lambda>k. k) 2000 ''a''
      (ex_store\<lparr>faults := [False, False, True]\<rparr>)) = Inl HostError"
    unfolding duplicateTemplate_eq saveTemplate_eq
    by (simp add: af ar av)
  have w: "validateTemplate ex_parser ex_wordy = Valid"
    by (simp add: ex_wordy_def ex_template_valid name_wordy)
  have bad: "validateTemplate ex_parser
      (ex_wordy\<lparr>id' := generateUUID (\<lambda>k. k), name := name ex_wordy @ '' (Copy)'',
         createdAt := DateStr 2000, lastUsedAt := None, usageCount := 0\<rparr>)
      = Invalid ''Template name must be 50 characters or less''"
    using name_wordy_copy
    by (simp add: validateTemplate_def generateUUID_nonempty ex_wordy_def ex_template_def)
  have fails: "duplicateTemplate ex_parser (\<lambda>k. k) 2000 ''w'' (ex_world [ex_wordy]) =
      (Inl (Error ''Template name must be 50 characters or less''), ex_world [ex_wordy])"
    unfolding duplicateTemplate_eq saveTemplate_eq
    by (simp add: bad ex_world_def stored_templates_def rejects_def advance_def)
      (simp add: ex_wordy_def ex_template_def)
  have z: "validateTemplate ex_parser ex_zero = Valid"
    by (simp add: ex_zero_def ex_template_valid name_Work)
  have zc: "length (trim (name ex_zero @ '' (Copy)'')) \<le> MAX_TEMPLATE_NAME_LENGTH"
    using name_Work_copy by (simp add: ex_zero_def ex_template_def)
  have zv: "validateTemplate ex_parser
      (ex_zero\<lparr>id' := generateUUID (\<lambda>k. 0), name := name ex_zero @ '' (Copy)'',
         createdAt := DateStr 2000, lastUsedAt := None, usageCount := 0\<rparr>) = Valid"
    using z zc by (rule duplicate_valid)
  have clash: "map id' (stored_templates (snd (duplicateTemplate ex_parser (\<lambda>k. 0) 2000 (id' ex_zero)
         (ex_world [ex_zero])))) = [id' ex_zero, id' ex_zero]"
    unfolding duplicateTemplate_eq saveTemplate_eq
    by (simp add: zv ex_world_def stored_templates_def rejects_def advance_def)
      (simp add: ex_zero_def ex_template_def uuid_zero)
  show ?thesis
    using w fails clash outage
    by (simp add: ex_world_def stored_templates_def) (simp add: ex_wordy_def ex_template_def)
qed

text \<open>
  C9, amended. Let \<open>tid\<close> name a stored template \<open>t\<close> that passes \<^verbatim>\<open>validateTemplate\<close> and
  whose name, followed by \<^verbatim>\<open> (Copy)\<close> and trimmed, has at most 50 characters, and let the three
  storage calls of the operation not be rejected. Then \<^verbatim>\<open>duplicateTemplate\<close> returns a
  template that it appends to the stored list: its name is the name of \<open>t\<close> followed by
  \<^verbatim>\<open> (Copy)\<close>, its id is the UUID that \<^verbatim>\<open>generateUUID\<close> draws, its \<^verbatim>\<open>usageCount\<close> is 0, its
  \<^verbatim>\<open>lastUsedAt\<close> is \<^verbatim>\<open>null\<close>, its \<^verbatim>\<open>createdAt\<close> is the clock reading, and its tabs, description,
  colour and icon are those of \<open>t\<close>.
\<close>

theorem duplicateTemplate_copies:
  assumes "find (\<lambda>t. id' t = tid) (stored_templates w) = Some t"
    and "validateTemplate P t = Valid"
    and "length (trim (name t @ '' (Copy)'')) \<le> MAX_TEMPLATE_NAME_LENGTH"
    and "\<not> rejects w" and "\<not> rejects (advance w)" and "\<not> rejects (advance (advance w))"
  shows "\<exists>d. fst (duplicateTemplate P rnd now tid w) = Inr d
     \<and> stored_templates (snd (duplicateTemplate P rnd now tid w)) = stored_templates w @ [d]
     \<and> name d = name t @ '' (Copy)''
     \<and> id' d = generateUUID rnd
     \<and> usageCount d = 0 \<and> lastUsedAt d = None \<and> createdAt d = DateStr now
     \<and> tabs d = tabs t \<and> description d = description t
     \<and> color d = color t \<and> icon d = icon t"
proof -
  let ?d = "t\<lparr>id' := generateUUID rnd, name := name t @ '' (Copy)'', createdAt := DateStr now,
              lastUsedAt := None, usageCount := 0\<rparr>"
  have v: "validateTemplate P ?d = Valid"
    using assms(2,3) by (rule duplicate_valid)
  have "duplicateTemplate P rnd now tid w =
      (Inr ?d, (advance (advance (advance w)))\<lparr>sync_templates := Some (stored_templates w @ [?d])\<rparr>)"
    using assms(1,4,5,6) by (simp add: duplicateTemplate_eq saveTemplate_eq v)
  then show ?thesis
    by (intro exI [of _ ?d]) simp
qed

theorem duplicateTemplate_copies_witness:
  "find (\<lambda>t. id' t = ''a'') (stored_templates ex_store) = Some (ex_template ''a'' ''Work'')
   \<and> validateTemplate ex_parser (ex_template ''a'' ''Work'') = Valid
   \<and> length (trim (name (ex_template ''a'' ''Work'') @ '' (Copy)'')) \<le> MAX_TEMPLATE_NAME_LENGTH
   \<and> \<not> rejects ex_store \<and> \<not> rejects (advance ex_store) \<and> \<not> rejects (advance (advance ex_store))
   \<and> map id' (stored_templates (snd (duplicateTemplate ex_parser (\<lambda>k. k) 2000 ''a'' ex_store)))
       = [''a'', ''b'', ''01234567-89ab-4cde-b012-3456789abcde'']
   \<and> map name (stored_templates (snd (duplicateTemplate ex_parser (\<lambda>k. k) 2000 ''a'' ex_store)))
       = [''Work'', ''Home'', ''Work (Copy)'']
   \<and> map usageCount (stored_templates (snd (duplicateTemplate ex_parser (\<lambda>k. k) 2000 ''a'' ex_store)))
       = [0, 0, 0]"
proof -
  have f: "find (\<lambda>t. id' t = ''a'') (stored_templates ex_store) = Some (ex_template ''a'' ''Work'')"
    by (simp add: ex_store_def ex_world_def stored_templates_def) (simp add: ex_template_def)
  have v: "validateTemplate ex_parser (ex_template ''a'' ''Work'') = Valid"
    by (simp add: ex_template_valid name_Work)
  have n: "length (trim (name (ex_template ''a'' ''Work'') @ '' (Copy)'')) \<le> MAX_TEMPLATE_NAME_LENGTH"
    using name_Work_copy by (simp add: ex_template_def)
  have h: "\<not> rejects ex_store \<and> \<not> rejects (advance ex_store) \<and> \<not> rejects (advance (advance ex_store))"
    by (simp add: ex_store_def ex_world_def)
  have u: "generateUUID (\<lambda>k. k) = ''01234567-89ab-4cde-b012-3456789abcde''"
    by code_simp
  obtain d where d: "stored_templates (snd (duplicateTemplate ex_parser (\<lambda>k. k) 2000 ''a'' ex_store))
        = stored_templates ex_store @ [d]"
      "name d = name (ex_template ''a'' ''Work'') @ '' (Copy)''" "id' d = generateUUID (\<lambda>k. k)"
      "usageCount d = 0"
    using duplicateTemplate_copies [OF f v n, of "\<lambda>k. k" 2000] h by blast
  show ?thesis
    using f v n h d u
    by (simp add: ex_store_def ex_world_def stored_templates_def) (simp add: ex_template_def)
qed

section \<open>The description of a template\<close>

lemma long_update:
  "fst (updateTemplate ex_parser ''a''
          (no_updates\<lparr>upd_description := Some (Some (replicate 201 (CHR ''x'')))\<rparr>) ex_store) = Inr True
   \<and> map description (stored_templates (snd (updateTemplate ex_parser ''a''
          (no_updates\<lparr>upd_description := Some (Some (replicate 201 (CHR ''x'')))\<rparr>) ex_store)))
       = [Some (replicate 201 (CHR ''x'')), Some []]"
proof -
  have sp: "spread (ex_template ''a'' ''Work'')
               (no_updates\<lparr>upd_description := Some (Some (replicate 201 (CHR ''x'')))\<rparr>)
            = (ex_template ''a'' ''Work'')\<lparr>description := Some (replicate 201 (CHR ''x''))\<rparr>"
    by (simp add: spread_def no_updates_def ex_template_def)
  have v: "validateTemplate ex_parser
             ((ex_template ''a'' ''Work'')\<lparr>description := Some (replicate 201 (CHR ''x''))\<rparr>) = Valid"
    unfolding validateTemplate_ignores_description
    by (simp add: ex_template_valid name_Work)
  have st: "stored_templates ex_store = [ex_template ''a'' ''Work'', ex_template ''b'' ''Home'']"
    "\<not> rejects ex_store" "\<not> rejects (advance ex_store)"
    by (simp_all add: ex_store_def ex_world_def stored_templates_def)
  have ix: "findIndex (\<lambda>t. id' t = ''a'') [ex_template ''a'' ''Work'', ex_template ''b'' ''Home''] = Some 0"
    by (simp add: ex_template_def)
  show ?thesis
    unfolding updateTemplate_eq
    by (simp add: st ix sp v) (simp add: ex_template_def)
qed

text \<open>
  C7. The validator has \<^verbatim>\<open>validateDescription\<close>, which rejects a description longer than
  \<^verbatim>\<open>MAX_DESCRIPTION_LENGTH\<close> = 200, but \<^verbatim>\<open>validateTemplate\<close> never calls it (nor does any other
  code): a template with a description of 201 characters, which \<^verbatim>\<open>validateDescription\<close>
  rejects, passes \<^verbatim>\<open>validateTemplate\<close>, is persisted by \<^verbatim>\<open>saveTemplate\<close>, is created and
  persisted by \<^verbatim>\<open>createEmpty\<close>, and is written over a stored template by \<^verbatim>\<open>updateTemplate\<close>.
\<close>

theorem long_description_accepted:
  "description ex_long = Some (replicate 201 (CHR ''x''))
   \<and> length (replicate 201 (CHR ''x'')) = 201
   \<and> validateDescription (description ex_long) = Invalid ''Description must be 200 characters or less''
   \<and> validateTemplate ex_parser ex_long = Valid
   \<and> fst (saveTemplate ex_parser ex_long (ex_world [])) = Inr True
   \<and> stored_templates (snd (saveTemplate ex_parser ex_long (ex_world []))) = [ex_long]
   \<and> map description (stored_templates (snd (createEmpty ex_parser (\<lambda>k. 0) 1000 ''Notes''
        (Some (replicate 201 (CHR ''x''))) (ex_world [])))) = [Some (replicate 201 (CHR ''x''))]
   \<and> fst (updateTemplate ex_parser ''a''
          (no_updates\<lparr>upd_description := Some (Some (replicate 201 (CHR ''x'')))\<rparr>) ex_store) = Inr True
   \<and> map description (stored_templates (snd (updateTemplate ex_parser ''a''
          (no_updates\<lparr>upd_description := Some (Some (replicate 201 (CHR ''x'')))\<rparr>) ex_store)))
       = [Some (replicate 201 (CHR ''x'')), Some []]"
proof -
  have v: "validateTemplate ex_parser ex_long = Valid"
    unfolding ex_long_def validateTemplate_ignores_description
    by (simp add: ex_template_valid name_Notes)
  have d: "validateDescription (description ex_long) = Invalid ''Description must be 200 characters or less''"
    by (simp add: ex_long_def ex_template_def validateDescription_def MAX_DESCRIPTION_LENGTH_def
        show_nat_200)
  have s: "saveTemplate ex_parser ex_long (ex_world []) =
      (Inr True, (ex_world [])\<lparr>sync_templates := Some [ex_long]\<rparr>)"
    by (simp add: saveTemplate_eq v) (simp add: ex_world_def rejects_def stored_templates_def advance_def)
  have c: "map description (stored_templates (snd (createEmpty ex_parser (\<lambda>k. 0) 1000 ''Notes''
        (Some (replicate 201 (CHR ''x''))) (ex_world [])))) = [Some (replicate 201 (CHR ''x''))]"
    by (simp add: createEmpty_def name_Notes saveTemplate_eq validateTemplate_def io_bind_def
        io_return_def generateUUID_def hex_digit_def sanitizeTemplateName_def trim_def is_space_def
        MAX_TEMPLATE_NAME_LENGTH_def validateTemplateName_def
        ex_world_def rejects_def stored_templates_def advance_def)
  show ?thesis
    using v d s c long_update by (simp add: ex_long_def)
qed

end
